theory Spec2Isabelle
  imports Complex_Main "HOL-Library.Sublist"
begin

section \<open>The rules engine\<close>

text \<open>
  The program delegates every rule of chess to the library chess.js (version 1: \<open>isGameOver\<close>,
  \<open>isCheckmate\<close>, a \<open>move\<close> that throws). The library is not part of the repository, so
  the rules themselves (which moves are legal, what a position looks like after a move, how
  a position is written as FEN, what stands on a square) are a parameter of the
  development: a record \<open>Rules\<close> over an arbitrary type of positions. What the program
  relies on beyond the rules is how a \<open>Chess\<close> object keeps its own history, and that is
  written out as the library documents it: an object built from a FEN text starts with an
  empty history, \<open>move\<close> pushes onto it, \<open>undo\<close> pops from it and answers \<open>null\<close> when
  it is empty, and \<open>history\<close> lists the moves made on this object.
\<close>

datatype Color = WHITE | BLACK

datatype PieceSymbol = PAWN | KNIGHT | BISHOP | ROOK | QUEEN | KING

fun symbol_char :: "PieceSymbol \<Rightarrow> char" where
  "symbol_char PAWN = CHR ''p''"
| "symbol_char KNIGHT = CHR ''n''"
| "symbol_char BISHOP = CHR ''b''"
| "symbol_char ROOK = CHR ''r''"
| "symbol_char QUEEN = CHR ''q''"
| "symbol_char KING = CHR ''k''"

fun symbol_upper :: "PieceSymbol \<Rightarrow> char" where
  "symbol_upper PAWN = CHR ''P''"
| "symbol_upper KNIGHT = CHR ''N''"
| "symbol_upper BISHOP = CHR ''B''"
| "symbol_upper ROOK = CHR ''R''"
| "symbol_upper QUEEN = CHR ''Q''"
| "symbol_upper KING = CHR ''K''"

text \<open>
  A square of chess.js is one of the sixty-four texts \<open>a8\<close> to \<open>h1\<close>: a file letter and a
  rank digit. \<open>fileCode\<close> is the character code of the letter, \<open>rankCode\<close> that of the
  digit, and \<open>rankNumber\<close> is what \<open>parseInt\<close> makes of the digit.
\<close>

datatype File = Fa | Fb | Fc | Fd | Fe | Ff | Fg | Fh

datatype Rank = R1 | R2 | R3 | R4 | R5 | R6 | R7 | R8

datatype Square = Sq File Rank

fun fileIndex :: "File \<Rightarrow> nat" where
  "fileIndex Fa = 0"
| "fileIndex Fb = 1"
| "fileIndex Fc = 2"
| "fileIndex Fd = 3"
| "fileIndex Fe = 4"
| "fileIndex Ff = 5"
| "fileIndex Fg = 6"
| "fileIndex Fh = 7"

fun rankNumber :: "Rank \<Rightarrow> nat" where
  "rankNumber R1 = 1"
| "rankNumber R2 = 2"
| "rankNumber R3 = 3"
| "rankNumber R4 = 4"
| "rankNumber R5 = 5"
| "rankNumber R6 = 6"
| "rankNumber R7 = 7"
| "rankNumber R8 = 8"

definition fileCode :: "File \<Rightarrow> nat" where
  "fileCode f = 97 + fileIndex f"

definition rankCode :: "Rank \<Rightarrow> nat" where
  "rankCode r = 48 + rankNumber r"

fun square_file :: "Square \<Rightarrow> File" where
  "square_file (Sq f r) = f"

fun square_rank :: "Square \<Rightarrow> Rank" where
  "square_rank (Sq f r) = r"

fun fileChar :: "File \<Rightarrow> char" where
  "fileChar Fa = CHR ''a''"
| "fileChar Fb = CHR ''b''"
| "fileChar Fc = CHR ''c''"
| "fileChar Fd = CHR ''d''"
| "fileChar Fe = CHR ''e''"
| "fileChar Ff = CHR ''f''"
| "fileChar Fg = CHR ''g''"
| "fileChar Fh = CHR ''h''"

fun rankChar :: "Rank \<Rightarrow> char" where
  "rankChar R1 = CHR ''1''"
| "rankChar R2 = CHR ''2''"
| "rankChar R3 = CHR ''3''"
| "rankChar R4 = CHR ''4''"
| "rankChar R5 = CHR ''5''"
| "rankChar R6 = CHR ''6''"
| "rankChar R7 = CHR ''7''"
| "rankChar R8 = CHR ''8''"

fun square_text :: "Square \<Rightarrow> string" where
  "square_text (Sq f r) = [fileChar f, rankChar r]"

record Piece =
  piece_type :: PieceSymbol
  piece_color :: Color

record BoardSquare =
  sq_square :: Square
  sq_type :: PieceSymbol
  sq_color :: Color

record Move =
  m_color :: Color
  m_from :: Square
  m_to :: Square
  m_piece :: PieceSymbol
  m_captured :: "PieceSymbol option"
  m_promotion :: "PieceSymbol option"
  m_flags :: string
  m_san :: string

record 'p Chess =
  position :: 'p
  history_stack :: "(Move \<times> 'p) list"

record 'p Rules =
  load_fen :: "string \<Rightarrow> 'p option"
  to_fen :: "'p \<Rightarrow> string"
  default_position :: 'p
  legal_moves :: "'p \<Rightarrow> Move list"
  make_move :: "'p \<Rightarrow> Move \<Rightarrow> 'p"
  side_to_move :: "'p \<Rightarrow> Color"
  piece_at :: "'p \<Rightarrow> string \<Rightarrow> Piece option"
  board_of :: "'p \<Rightarrow> BoardSquare option list list"
  in_check :: "'p \<Rightarrow> bool"
  other_draw :: "'p Chess \<Rightarrow> bool"

text \<open>
  \<open>new Chess(fen)\<close> throws on a text that is not a FEN (\<open>None\<close> here); \<open>new Chess()\<close>
  starts from the default position. Both start with an empty history.
\<close>

definition new_Chess :: "'p Rules \<Rightarrow> string \<Rightarrow> 'p Chess option" where
  "new_Chess R f =
     (case load_fen R f of
        None \<Rightarrow> None
      | Some p \<Rightarrow> Some \<lparr>position = p, history_stack = []\<rparr>)"

definition new_Chess_default :: "'p Rules \<Rightarrow> 'p Chess" where
  "new_Chess_default R = \<lparr>position = default_position R, history_stack = []\<rparr>"

definition chess_moves :: "'p Rules \<Rightarrow> 'p Chess \<Rightarrow> Move list" where
  "chess_moves R g = legal_moves R (position g)"

definition chess_fen :: "'p Rules \<Rightarrow> 'p Chess \<Rightarrow> string" where
  "chess_fen R g = to_fen R (position g)"

definition chess_turn :: "'p Rules \<Rightarrow> 'p Chess \<Rightarrow> Color" where
  "chess_turn R g = side_to_move R (position g)"

definition chess_get :: "'p Rules \<Rightarrow> 'p Chess \<Rightarrow> string \<Rightarrow> Piece option" where
  "chess_get R g sq = piece_at R (position g) sq"

definition chess_board :: "'p Rules \<Rightarrow> 'p Chess \<Rightarrow> BoardSquare option list list" where
  "chess_board R g = board_of R (position g)"

definition chess_history_verbose :: "'p Chess \<Rightarrow> Move list" where
  "chess_history_verbose g = map fst (history_stack g)"

definition chess_history :: "'p Chess \<Rightarrow> string list" where
  "chess_history g = map (\<lambda>e. m_san (fst e)) (history_stack g)"

text \<open>
  \<open>move({from, to, promotion})\<close> takes the first legal move with these squares whose
  promotion piece, when it has one, is the one asked for; it throws when there is none
  (\<open>None\<close> here). The move made is pushed on the history with the position it left.
\<close>

definition move_matches :: "string \<Rightarrow> string \<Rightarrow> string option \<Rightarrow> Move \<Rightarrow> bool" where
  "move_matches f t promo m \<longleftrightarrow>
     square_text (m_from m) = f \<and> square_text (m_to m) = t \<and>
     (case m_promotion m of None \<Rightarrow> True | Some ps \<Rightarrow> promo = Some [symbol_char ps])"

definition chess_move ::
  "'p Rules \<Rightarrow> 'p Chess \<Rightarrow> string \<Rightarrow> string \<Rightarrow> string option \<Rightarrow> (Move \<times> 'p Chess) option" where
  "chess_move R g f t promo =
     (case find (move_matches f t promo) (chess_moves R g) of
        None \<Rightarrow> None
      | Some m \<Rightarrow>
          Some (m, \<lparr>position = make_move R (position g) m,
                    history_stack = history_stack g @ [(m, position g)]\<rparr>))"

text \<open>\<open>undo()\<close> answers \<open>null\<close> on an empty history and otherwise restores the position
  the last move left.\<close>

definition chess_undo :: "'p Chess \<Rightarrow> (Move \<times> 'p Chess) option" where
  "chess_undo g =
     (case rev (history_stack g) of
        [] \<Rightarrow> None
      | e # earlier \<Rightarrow> Some (fst e, \<lparr>position = snd e, history_stack = rev earlier\<rparr>))"

definition chess_isCheckmate :: "'p Rules \<Rightarrow> 'p Chess \<Rightarrow> bool" where
  "chess_isCheckmate R g \<longleftrightarrow> in_check R (position g) \<and> chess_moves R g = []"

definition chess_isStalemate :: "'p Rules \<Rightarrow> 'p Chess \<Rightarrow> bool" where
  "chess_isStalemate R g \<longleftrightarrow> \<not> in_check R (position g) \<and> chess_moves R g = []"

text \<open>\<open>other_draw\<close> stands for the fifty-move rule, insufficient material and threefold
  repetition, the draws of chess.js apart from stalemate.\<close>

definition chess_isDraw :: "'p Rules \<Rightarrow> 'p Chess \<Rightarrow> bool" where
  "chess_isDraw R g \<longleftrightarrow> other_draw R g \<or> chess_isStalemate R g"

definition chess_isGameOver :: "'p Rules \<Rightarrow> 'p Chess \<Rightarrow> bool" where
  "chess_isGameOver R g \<longleftrightarrow> chess_isCheckmate R g \<or> chess_isStalemate R g \<or> chess_isDraw R g"

section \<open>The style profile\<close>

record PieceActivity =
  queenMoves :: real
  rookMoves :: real
  bishopMoves :: real
  knightMoves :: real
  pawnMoves :: real

record TacticalPatterns =
  captures :: real
  checks :: real
  castling :: real
  promotions :: real

record EndgameStyle =
  kingActivity :: real
  pawnPushes :: real
  pieceExchanges :: real

record PlayerStyle =
  name :: string
  totalGames :: real
  averageGameLength :: real
  openingPreferences :: "(string \<times> real) list"
  pieceActivity :: PieceActivity
  tacticalPatterns :: TacticalPatterns
  endgameStyle :: EndgameStyle
  aggressiveness :: real
  positionalVsTactical :: real

section \<open>The game state machine (game-context.tsx)\<close>

datatype Difficulty = Easy | Medium | Hard | Style

datatype GameStatus = Playing | Checkmate | Stalemate | Draw | Thinking

datatype PlayerColor = White | Black

record LastMove =
  lm_from :: string
  lm_to :: string
  lm_captured :: "PieceSymbol option"

record CapturedPieces =
  capturedWhite :: "string list"
  capturedBlack :: "string list"

record 'p GameState =
  game :: "'p Chess"
  fen :: string
  moveHistory :: "string list"
  gameStatus :: GameStatus
  difficulty :: Difficulty
  playerColor :: PlayerColor
  currentTurn :: PlayerColor
  selectedSquare :: "string option"
  possibleMoves :: "string list"
  lastMove :: "LastMove option"
  capturedPieces :: CapturedPieces
  playerStyle :: "PlayerStyle option"

record MovePayload =
  pl_from :: string
  pl_to :: string
  pl_promotion :: "string option"

text \<open>The payload of \<open>LOAD_GAME\<close> is a \<open>Partial<GameState>\<close>: every field may be absent.\<close>

record 'p GamePatch =
  patch_game :: "'p Chess option"
  patch_fen :: "string option"
  patch_moveHistory :: "string list option"
  patch_gameStatus :: "GameStatus option"
  patch_difficulty :: "Difficulty option"
  patch_playerColor :: "PlayerColor option"
  patch_currentTurn :: "PlayerColor option"
  patch_selectedSquare :: "string option option"
  patch_possibleMoves :: "string list option"
  patch_lastMove :: "LastMove option option"
  patch_capturedPieces :: "CapturedPieces option"
  patch_playerStyle :: "PlayerStyle option option"

datatype 'p GameAction =
    MAKE_MOVE MovePayload
  | SET_SELECTED_SQUARE "string option"
  | SET_POSSIBLE_MOVES "string list"
  | SET_DIFFICULTY Difficulty
  | SET_PLAYER_COLOR PlayerColor
  | SET_PLAYER_STYLE "PlayerStyle option"
  | RESET_GAME
  | UNDO_MOVE
  | SET_GAME_STATUS GameStatus
  | LOAD_GAME "'p GamePatch"

definition turn_color :: "Color \<Rightarrow> PlayerColor" where
  "turn_color c = (if c = WHITE then White else Black)"

definition initialState :: "'p Rules \<Rightarrow> 'p GameState" where
  "initialState R =
     \<lparr>game = new_Chess_default R,
      fen = chess_fen R (new_Chess_default R),
      moveHistory = [],
      gameStatus = Playing,
      difficulty = Medium,
      playerColor = White,
      currentTurn = White,
      selectedSquare = None,
      possibleMoves = [],
      lastMove = None,
      capturedPieces = \<lparr>capturedWhite = [], capturedBlack = []\<rparr>,
      playerStyle = None\<rparr>"

text \<open>The state every failing path of \<open>MAKE_MOVE\<close> returns: only the selection is cleared.\<close>

definition clearSelection :: "'p GameState \<Rightarrow> 'p GameState" where
  "clearSelection s = s\<lparr>selectedSquare := None, possibleMoves := []\<rparr>"

text \<open>\<open>s[i] === c\<close> on a string: false when the string is too short.\<close>

definition char_at_is :: "string \<Rightarrow> nat \<Rightarrow> char \<Rightarrow> bool" where
  "char_at_is s i c \<longleftrightarrow> i < length s \<and> s ! i = c"

definition isPromotion :: "Piece option \<Rightarrow> string \<Rightarrow> bool" where
  "isPromotion piece t \<longleftrightarrow>
     (case piece of
        None \<Rightarrow> False
      | Some pc \<Rightarrow>
          piece_type pc = PAWN \<and>
          ((piece_color pc = WHITE \<and> char_at_is t 1 (CHR ''8'')) \<or>
           (piece_color pc = BLACK \<and> char_at_is t 1 (CHR ''1''))))"

text \<open>\<open>action.payload.promotion || "q"\<close>: an absent or empty choice becomes the queen.\<close>

definition promotion_or_queen :: "string option \<Rightarrow> string" where
  "promotion_or_queen promo =
     (case promo of None \<Rightarrow> ''q'' | Some x \<Rightarrow> if x = [] then ''q'' else x)"

text \<open>
  The captured piece is recorded as the colour letter of the side that lost it followed by
  the upper-case piece letter, in the list of that side. (The source pushes onto the array
  the previous state holds as well; the lists are values here.)
\<close>

definition trackCaptured :: "CapturedPieces \<Rightarrow> Move \<Rightarrow> CapturedPieces" where
  "trackCaptured cp moveDetails =
     (case m_captured moveDetails of
        None \<Rightarrow> cp
      | Some ps \<Rightarrow>
          (if m_color moveDetails = WHITE
           then cp\<lparr>capturedBlack := capturedBlack cp @ [[CHR ''b'', symbol_upper ps]]\<rparr>
           else cp\<lparr>capturedWhite := capturedWhite cp @ [[CHR ''w'', symbol_upper ps]]\<rparr>))"

definition statusOf :: "'p Rules \<Rightarrow> 'p Chess \<Rightarrow> GameStatus" where
  "statusOf R newGame =
     (if chess_isGameOver R newGame then
        (if chess_isCheckmate R newGame then Checkmate
         else if chess_isStalemate R newGame then Stalemate
         else Draw)
      else Playing)"

text \<open>
  \<open>MAKE_MOVE\<close> first looks the squares up among the legal moves (\<open>findMoveDetails\<close>) and
  then asks the library to make the move (\<open>performMove\<close>, the inner \<open>try\<close> block).
\<close>

definition findMoveDetails :: "'p Rules \<Rightarrow> 'p Chess \<Rightarrow> MovePayload \<Rightarrow> Move option" where
  "findMoveDetails R newGame payload =
     find (\<lambda>m. square_text (m_from m) = pl_from payload \<and> square_text (m_to m) = pl_to payload)
          (chess_moves R newGame)"

definition performMove ::
  "'p Rules \<Rightarrow> 'p Chess \<Rightarrow> MovePayload \<Rightarrow> (Move \<times> 'p Chess) option" where
  "performMove R newGame payload =
     (if isPromotion (chess_get R newGame (pl_from payload)) (pl_to payload)
      then chess_move R newGame (pl_from payload) (pl_to payload)
             (Some (promotion_or_queen (pl_promotion payload)))
      else chess_move R newGame (pl_from payload) (pl_to payload) None)"

definition makeMove :: "'p Rules \<Rightarrow> 'p GameState \<Rightarrow> MovePayload \<Rightarrow> 'p GameState" where
  "makeMove R s payload =
     (case new_Chess R (fen s) of
        None \<Rightarrow> clearSelection s
      | Some newGame \<Rightarrow>
          (case findMoveDetails R newGame payload of
             None \<Rightarrow> clearSelection s
           | Some moveDetails \<Rightarrow>
               (case performMove R newGame payload of
                  None \<Rightarrow> clearSelection s
                | Some (moveResult, movedGame) \<Rightarrow>
                    s\<lparr>game := movedGame,
                      fen := chess_fen R movedGame,
                      moveHistory := chess_history movedGame,
                      gameStatus := statusOf R movedGame,
                      currentTurn := turn_color (chess_turn R movedGame),
                      selectedSquare := None,
                      possibleMoves := [],
                      lastMove := Some \<lparr>lm_from = pl_from payload, lm_to = pl_to payload,
                                         lm_captured = m_captured moveDetails\<rparr>,
                      capturedPieces := trackCaptured (capturedPieces s) moveDetails\<rparr>)))"

text \<open>
  \<open>UNDO_MOVE\<close> rebuilds the game from the FEN of the state and asks that object to undo.
  The second undo is guarded by the turn recorded in the state before the undo.
\<close>

definition undoMove :: "'p Rules \<Rightarrow> 'p GameState \<Rightarrow> 'p GameState" where
  "undoMove R s =
     (case new_Chess R (fen s) of
        None \<Rightarrow> s
      | Some newGame \<Rightarrow>
          (case chess_undo newGame of
             None \<Rightarrow> s
           | Some (undoResult, g1) \<Rightarrow>
               (let g2 = (if playerColor s \<noteq> currentTurn s \<and> length (chess_history g1) > 0
                          then (case chess_undo g1 of None \<Rightarrow> g1 | Some (secondUndo, g) \<Rightarrow> g)
                          else g1)
                in s\<lparr>game := g2,
                     fen := chess_fen R g2,
                     moveHistory := chess_history g2,
                     gameStatus := Playing,
                     currentTurn := turn_color (chess_turn R g2),
                     selectedSquare := None,
                     possibleMoves := [],
                     lastMove := None\<rparr>)))"

definition resetGame :: "'p Rules \<Rightarrow> 'p GameState \<Rightarrow> 'p GameState" where
  "resetGame R s =
     (initialState R)
       \<lparr>difficulty := difficulty s,
        playerColor := playerColor s,
        playerStyle := playerStyle s,
        game := new_Chess_default R,
        fen := chess_fen R (new_Chess_default R),
        capturedPieces := \<lparr>capturedWhite = [], capturedBlack = []\<rparr>\<rparr>"

definition or_else :: "'a option \<Rightarrow> 'a \<Rightarrow> 'a" where
  "or_else x d = (case x of None \<Rightarrow> d | Some v \<Rightarrow> v)"

definition loadGame :: "'p GameState \<Rightarrow> 'p GamePatch \<Rightarrow> 'p GameState" where
  "loadGame s p =
     \<lparr>game = or_else (patch_game p) (game s),
      fen = or_else (patch_fen p) (fen s),
      moveHistory = or_else (patch_moveHistory p) (moveHistory s),
      gameStatus = or_else (patch_gameStatus p) (gameStatus s),
      difficulty = or_else (patch_difficulty p) (difficulty s),
      playerColor = or_else (patch_playerColor p) (playerColor s),
      currentTurn = or_else (patch_currentTurn p) (currentTurn s),
      selectedSquare = or_else (patch_selectedSquare p) (selectedSquare s),
      possibleMoves = or_else (patch_possibleMoves p) (possibleMoves s),
      lastMove = or_else (patch_lastMove p) (lastMove s),
      capturedPieces = or_else (patch_capturedPieces p) (capturedPieces s),
      playerStyle = or_else (patch_playerStyle p) (playerStyle s)\<rparr>"

fun gameReducer :: "'p Rules \<Rightarrow> 'p GameState \<Rightarrow> 'p GameAction \<Rightarrow> 'p GameState" where
  "gameReducer R s (MAKE_MOVE payload) = makeMove R s payload"
| "gameReducer R s (SET_SELECTED_SQUARE sq) = s\<lparr>selectedSquare := sq\<rparr>"
| "gameReducer R s (SET_POSSIBLE_MOVES ms) = s\<lparr>possibleMoves := ms\<rparr>"
| "gameReducer R s (SET_DIFFICULTY d) = s\<lparr>difficulty := d\<rparr>"
| "gameReducer R s (SET_PLAYER_COLOR c) = s\<lparr>playerColor := c\<rparr>"
| "gameReducer R s (SET_PLAYER_STYLE st) =
     s\<lparr>playerStyle := st, difficulty := (if st \<noteq> None then Style else Medium)\<rparr>"
| "gameReducer R s RESET_GAME = resetGame R s"
| "gameReducer R s UNDO_MOVE = undoMove R s"
| "gameReducer R s (SET_GAME_STATUS st) = s\<lparr>gameStatus := st\<rparr>"
| "gameReducer R s (LOAD_GAME p) = loadGame s p"


subsection \<open>The menu handlers (mobile-chess-app.tsx)\<close>

definition handleRestart :: "'p Rules \<Rightarrow> 'p GameState \<Rightarrow> 'p GameState" where
  "handleRestart R s = gameReducer R s RESET_GAME"

definition handleUndo :: "'p Rules \<Rightarrow> 'p GameState \<Rightarrow> 'p GameState" where
  "handleUndo R s = (if length (moveHistory s) > 0 then gameReducer R s UNDO_MOVE else s)"

definition handleSwitchColors :: "'p Rules \<Rightarrow> 'p GameState \<Rightarrow> 'p GameState" where
  "handleSwitchColors R s =
     gameReducer R
       (gameReducer R s (SET_PLAYER_COLOR (if playerColor s = White then Black else White)))
       RESET_GAME"

definition handleDifficultyChange :: "'p Rules \<Rightarrow> 'p GameState \<Rightarrow> Difficulty \<Rightarrow> 'p GameState" where
  "handleDifficultyChange R s d =
     gameReducer R (gameReducer R s (SET_DIFFICULTY d)) (SET_PLAYER_STYLE None)"

definition handleStyleSelected :: "'p Rules \<Rightarrow> 'p GameState \<Rightarrow> PlayerStyle \<Rightarrow> 'p GameState" where
  "handleStyleSelected R s st =
     gameReducer R (gameReducer R s (SET_PLAYER_STYLE (Some st))) RESET_GAME"

definition handleRemoveStyle :: "'p Rules \<Rightarrow> 'p GameState \<Rightarrow> 'p GameState" where
  "handleRemoveStyle R s =
     gameReducer R (gameReducer R s (SET_PLAYER_STYLE None)) (SET_DIFFICULTY Easy)"

text \<open>The actions the board and the computer's turn dispatch.\<close>

fun boardAction :: "'p GameAction \<Rightarrow> bool" where
  "boardAction (MAKE_MOVE payload) = True"
| "boardAction (SET_SELECTED_SQUARE sq) = True"
| "boardAction (SET_POSSIBLE_MOVES ms) = True"
| "boardAction (SET_GAME_STATUS st) = True"
| "boardAction a = False"

text \<open>
  The states of a session of the mobile app: it starts in \<open>initialState\<close>, and every step is
  one of the menu handlers or one action of the board. \<open>handleDifficultyChange\<close> is only ever
  called with one of the three fixed difficulties.
\<close>

inductive appReachable :: "'p Rules \<Rightarrow> 'p GameState \<Rightarrow> bool" for R :: "'p Rules" where
  reach_init: "appReachable R (initialState R)"
| reach_restart: "appReachable R s \<Longrightarrow> appReachable R (handleRestart R s)"
| reach_undo: "appReachable R s \<Longrightarrow> appReachable R (handleUndo R s)"
| reach_switch: "appReachable R s \<Longrightarrow> appReachable R (handleSwitchColors R s)"
| reach_difficulty:
    "appReachable R s \<Longrightarrow> d \<noteq> Style \<Longrightarrow> appReachable R (handleDifficultyChange R s d)"
| reach_style: "appReachable R s \<Longrightarrow> appReachable R (handleStyleSelected R s st)"
| reach_remove: "appReachable R s \<Longrightarrow> appReachable R (handleRemoveStyle R s)"
| reach_board: "appReachable R s \<Longrightarrow> boardAction a \<Longrightarrow> appReachable R (gameReducer R s a)"


section \<open>The move selection engine (ai-engine.ts)\<close>

text \<open>
  Scores are JavaScript numbers; they are modelled as real numbers, so the arithmetic is
  exact. \<open>Math.random()\<close> is a parameter: \<open>rnd i\<close> is the value of the \<open>i\<close>-th call made
  by one selection (one call for each legal move, in the order of the list, and a last one
  to pick among the top moves). A call of \<open>Math.random()\<close> answers a number from zero
  inclusive to one exclusive.
\<close>

datatype AIPersonality = DefensiveTactical | Aggressive | Positional | Balanced | StyleBased

record AIConfig =
  personality :: AIPersonality
  thinkingTime :: real
  cfg_playerStyle :: "PlayerStyle option"

text \<open>
  What a call can throw: the \<open>TypeError\<close> of reading a property of \<open>undefined\<close>, and the
  \<open>Error\<close> with a message that the program throws itself.
\<close>

datatype error = TypeError | Error string

definition randomSource :: "(nat \<Rightarrow> real) \<Rightarrow> bool" where
  "randomSource rnd \<longleftrightarrow> (\<forall>i. 0 \<le> rnd i \<and> rnd i < 1)"

text \<open>\<open>s.includes(t)\<close>: the text \<open>t\<close> occurs in \<open>s\<close>.\<close>

fun js_includes :: "string \<Rightarrow> string \<Rightarrow> bool" where
  "js_includes [] t = (t = [])"
| "js_includes (c # cs) t = (prefix t (c # cs) \<or> js_includes cs t)"

text \<open>\<open>xs.slice(-n)\<close>: the last \<open>n\<close> elements, all of them when there are fewer.\<close>

definition slice_last :: "nat \<Rightarrow> 'a list \<Rightarrow> 'a list" where
  "slice_last n xs = drop (length xs - n) xs"

text \<open>\<open>row[i]\<close> on an array of squares: \<open>undefined\<close> out of range, like an empty square.\<close>

definition cell_at :: "BoardSquare option list \<Rightarrow> nat \<Rightarrow> BoardSquare option" where
  "cell_at row i = (if i < length row then row ! i else None)"

definition centralSquares :: "Square list" where
  "centralSquares =
     [Sq Fd R4, Sq Fd R5, Sq Fe R4, Sq Fe R5, Sq Fc R4, Sq Fc R5, Sq Ff R4, Sq Ff R5]"

text \<open>The two files next to a file, as character codes (\<open>String.fromCharCode(code \<plusminus> 1)\<close>).\<close>

definition adjacentFiles :: "File \<Rightarrow> nat list" where
  "adjacentFiles f = [fileCode f - 1, fileCode f + 1]"

subsection \<open>getDefensiveTacticalMove\<close>

fun pieceValues :: "PieceSymbol \<Rightarrow> real" where
  "pieceValues PAWN = 1"
| "pieceValues KNIGHT = 3"
| "pieceValues BISHOP = 3"
| "pieceValues ROOK = 5"
| "pieceValues QUEEN = 9"
| "pieceValues KING = 0"

definition defensiveScore :: "'p Chess \<Rightarrow> Move list \<Rightarrow> real \<Rightarrow> Move \<Rightarrow> real" where
  "defensiveScore g ms r move =
     (let s0 = r * 2;
          s1 = (case m_captured move of
                  None \<Rightarrow> s0
                | Some c \<Rightarrow>
                    (let captureValue = pieceValues c; pieceValue = pieceValues (m_piece move)
                     in if captureValue \<ge> pieceValue then s0 + captureValue * 2
                        else s0 + captureValue * 0.5));
          s2 = (if js_includes (m_san move) ''+'' then s1 + 3 else s1);
          s3 = (if js_includes (m_san move) ''#'' then s2 + 100 else s2);
          s4 = (if (m_piece move = KNIGHT \<or> m_piece move = BISHOP) \<and>
                   (square_rank (m_from move) = R1 \<or> square_rank (m_from move) = R8)
                then s3 + 2 else s3);
          s5 = (if List.member centralSquares (m_to move) then s4 + 1.5 else s4);
          s6 = (if js_includes (m_san move) ''O-O'' then s5 + 4 else s5);
          moveCount = length (chess_history g);
          s7 = (if moveCount < 16 \<and>
                   list_ex (\<lambda>prevMove. m_piece prevMove = m_piece move \<and>
                                        m_from prevMove = m_from move)
                           (slice_last 4 (chess_history_verbose g))
                then s6 - 1 else s6);
          s8 = (if m_piece move = KING \<and> moveCount > 20 then s7 + 1 else s7);
          s9 = (if m_piece move = PAWN \<and> moveCount < 40 \<and>
                   list_ex (\<lambda>m. m_piece m = PAWN \<and>
                                  List.member (adjacentFiles (square_file (m_to move)))
                                              (fileCode (square_file (m_to m))))
                           ms
                then s8 + 0.5 else s8)
      in s9)"

text \<open>
  \<open>moves.map\<close> scores the moves in order, drawing one random number for each; \<open>sort\<close> with
  the comparator \<open>b.score - a.score\<close> is a stable sort by falling score.
\<close>

definition scoredWith :: "(nat \<Rightarrow> real) \<Rightarrow> (real \<Rightarrow> Move \<Rightarrow> real) \<Rightarrow> Move list \<Rightarrow> (Move \<times> real) list" where
  "scoredWith rnd score ms = map (\<lambda>(i, m). (m, score (rnd i) m)) (enumerate 0 ms)"

definition sortByScore :: "(Move \<times> real) list \<Rightarrow> (Move \<times> real) list" where
  "sortByScore scoredMoves = sort_key (\<lambda>sm. - snd sm) scoredMoves"

text \<open>
  The shared tail of every personality: keep the top fraction of the ranked list (one move
  at least) and return the move at index \<open>Math.floor(Math.random() * topMoves.length)\<close>.
  Reading \<open>.move\<close> of an index out of range throws a \<open>TypeError\<close>.
\<close>

definition pickFromTop :: "real \<Rightarrow> real \<Rightarrow> (Move \<times> real) list \<Rightarrow> error + Move option" where
  "pickFromTop fraction r scoredMoves =
     (let sorted = sortByScore scoredMoves;
          topCount = max 1 (nat \<lfloor>real (length sorted) * fraction\<rfloor>);
          topMoves = take topCount sorted;
          i = \<lfloor>r * real (length topMoves)\<rfloor>
      in if 0 \<le> i \<and> nat i < length topMoves then Inr (Some (fst (topMoves ! nat i)))
         else Inl TypeError)"

definition defensiveScored :: "'p Rules \<Rightarrow> 'p Chess \<Rightarrow> (nat \<Rightarrow> real) \<Rightarrow> (Move \<times> real) list" where
  "defensiveScored R g rnd =
     scoredWith rnd (defensiveScore g (chess_moves R g)) (chess_moves R g)"

definition getDefensiveTacticalMove ::
  "'p Rules \<Rightarrow> 'p Chess \<Rightarrow> (nat \<Rightarrow> real) \<Rightarrow> error + Move option" where
  "getDefensiveTacticalMove R g rnd =
     (let ms = chess_moves R g
      in if length ms = 0 then Inr None
         else pickFromTop 0.3 (rnd (length ms)) (defensiveScored R g rnd))"

subsection \<open>getCarlsenStyleMove\<close>

fun pieceValuesCarlsen :: "PieceSymbol \<Rightarrow> real" where
  "pieceValuesCarlsen PAWN = 1"
| "pieceValuesCarlsen KNIGHT = 3"
| "pieceValuesCarlsen BISHOP = 3.25"
| "pieceValuesCarlsen ROOK = 5"
| "pieceValuesCarlsen QUEEN = 9"
| "pieceValuesCarlsen KING = 0"

fun strongSquares :: "PieceSymbol \<Rightarrow> Square list option" where
  "strongSquares KNIGHT =
     Some [Sq Fd R5, Sq Fe R5, Sq Fd R4, Sq Fe R4, Sq Ff R5, Sq Ff R4, Sq Fc R5, Sq Fc R4]"
| "strongSquares BISHOP =
     Some [Sq Fd R5, Sq Fe R5, Sq Fd R4, Sq Fe R4, Sq Ff R5, Sq Ff R4, Sq Fc R5, Sq Fc R4,
           Sq Fa R3, Sq Fh R3, Sq Fa R6, Sq Fh R6]"
| "strongSquares ROOK =
     Some [Sq Fd R1, Sq Fe R1, Sq Fd R8, Sq Fe R8, Sq Fd R2, Sq Fe R2, Sq Fd R7, Sq Fe R7,
           Sq Fc R1, Sq Ff R1, Sq Fc R8, Sq Ff R8]"
| "strongSquares QUEEN =
     Some [Sq Fd R3, Sq Fe R3, Sq Fd R6, Sq Fe R6, Sq Fc R3, Sq Ff R3, Sq Fc R6, Sq Ff R6]"
| "strongSquares p = None"

definition isEndgame :: "'p Rules \<Rightarrow> 'p Chess \<Rightarrow> bool" where
  "isEndgame R g \<longleftrightarrow>
     length (filter (\<lambda>cell. case cell of None \<Rightarrow> False | Some p \<Rightarrow> sq_type p \<noteq> KING)
               (concat (chess_board R g))) \<le> 10"

text \<open>
  The test for a passed pawn on the file with index \<open>fileIdx\<close>, seen from the rank
  \<open>rankNum\<close>: no row of the board, compared by its index, holds an enemy pawn on that file.
\<close>

definition isPassed :: "BoardSquare option list list \<Rightarrow> Color \<Rightarrow> nat \<Rightarrow> nat \<Rightarrow> bool" where
  "isPassed board turn fileIdx rankNum \<longleftrightarrow>
     \<not> list_ex (\<lambda>(rankIdx, row).
                  (case cell_at row fileIdx of
                     None \<Rightarrow> False
                   | Some square \<Rightarrow>
                       sq_color square \<noteq> turn \<and> sq_type square = PAWN \<and>
                       ((turn = WHITE \<and> rankIdx < rankNum) \<or>
                        (turn = BLACK \<and> rankIdx + 1 > rankNum))))
               (enumerate 0 board)"

definition hasPawnSupport :: "BoardSquare option list list \<Rightarrow> Color \<Rightarrow> File \<Rightarrow> bool" where
  "hasPawnSupport board turn f \<longleftrightarrow>
     list_ex (\<lambda>row.
        list_ex (\<lambda>cell.
           (case cell of
              None \<Rightarrow> False
            | Some sq \<Rightarrow>
                sq_type sq = PAWN \<and> sq_color sq = turn \<and>
                List.member (adjacentFiles f) (fileCode (square_file (sq_square sq)))))
          row)
       board"

definition opponentKingSquare :: "BoardSquare option list list \<Rightarrow> Color \<Rightarrow> Square option" where
  "opponentKingSquare board turn =
     (case find (\<lambda>cell. case cell of
                          None \<Rightarrow> False
                        | Some sq \<Rightarrow> sq_type sq = KING \<and> sq_color sq \<noteq> turn)
                (concat board) of
        Some (Some sq) \<Rightarrow> Some (sq_square sq)
      | _ \<Rightarrow> None)"

definition isBehindPassedPawn :: "BoardSquare option list list \<Rightarrow> Color \<Rightarrow> Square \<Rightarrow> bool" where
  "isBehindPassedPawn board turn to \<longleftrightarrow>
     list_ex (\<lambda>row.
        list_ex (\<lambda>cell.
           (case cell of
              None \<Rightarrow> False
            | Some sq \<Rightarrow>
                (if sq_type sq \<noteq> PAWN \<or> sq_color sq \<noteq> turn then False
                 else (let pawnFile = square_file (sq_square sq);
                           pawnRank = rankNumber (square_rank (sq_square sq))
                       in isPassed board turn (fileIndex pawnFile) pawnRank \<and>
                          square_file to = pawnFile \<and>
                          ((turn = WHITE \<and>
                            rankCode (square_rank to) > rankCode (square_rank (sq_square sq))) \<or>
                           (turn = BLACK \<and>
                            rankCode (square_rank to) < rankCode (square_rank (sq_square sq))))))))
          row)
       board"

definition carlsenScore :: "'p Rules \<Rightarrow> 'p Chess \<Rightarrow> real \<Rightarrow> Move \<Rightarrow> real" where
  "carlsenScore R g r move =
     (let board = chess_board R g;
          turn = chess_turn R g;
          endgame = isEndgame R g;
          piece = m_piece move;
          to = m_to move;
          s0 = r * 2;
          s1 = (case m_captured move of
                  None \<Rightarrow> s0
                | Some c \<Rightarrow> s0 + pieceValuesCarlsen c * 1.5);
          s2 = (if piece = KING then
                  (if endgame then
                     (let centerDistance = \<bar>4.5 - real (fileIndex (square_file to))\<bar>
                      in s1 + 1.5 + (4 - centerDistance) * 0.5)
                   else if square_rank to = R1 \<or> square_rank to = R8 then s1 - 1
                   else s1)
                else s1);
          s3 = (if piece = PAWN then
                  (let a = (if isPassed board turn (fileIndex (square_file to))
                                 (rankNumber (square_rank to))
                            then (if endgame then s2 + 3 + 2 else s2 + 3)
                            else s2)
                   in if \<not> hasPawnSupport board turn (square_file to) then a - 1.5 else a)
                else s2);
          s4 = (case strongSquares piece of
                  None \<Rightarrow> s3
                | Some squares \<Rightarrow> if List.member squares to then s3 + 1.5 else s3);
          s5 = (if js_includes (m_san move) ''+'' then s4 + 3 else s4);
          s6 = (if js_includes (m_san move) ''#'' then s5 + 100 else s5);
          s7 = (if js_includes (m_san move) ''x'' \<and> \<not> endgame then s6 + 1.5 else s6);
          s8 = (if piece \<noteq> KING then
                  (case opponentKingSquare board turn of
                     None \<Rightarrow> s7
                   | Some kingSquare \<Rightarrow>
                       (let kingFile = int (fileIndex (square_file kingSquare));
                            kingRank = int (rankNumber (square_rank kingSquare));
                            toFile = int (fileIndex (square_file to));
                            toRank = int (rankNumber (square_rank to));
                            distance = max \<bar>kingFile - toFile\<bar> \<bar>kingRank - toRank\<bar>
                        in s7 + (8 - real_of_int distance) * 0.3))
                else s7);
          s9 = (if endgame then
                  (let a = (if piece = KING then s8 + 1.5 else s8)
                   in if piece = ROOK \<and> isBehindPassedPawn board turn to then a + 2.5 else a)
                else s8)
      in s9)"

definition carlsenScored :: "'p Rules \<Rightarrow> 'p Chess \<Rightarrow> (nat \<Rightarrow> real) \<Rightarrow> (Move \<times> real) list" where
  "carlsenScored R g rnd = scoredWith rnd (carlsenScore R g) (chess_moves R g)"

definition getCarlsenStyleMove ::
  "'p Rules \<Rightarrow> 'p Chess \<Rightarrow> (nat \<Rightarrow> real) \<Rightarrow> error + Move option" where
  "getCarlsenStyleMove R g rnd =
     pickFromTop 0.2 (rnd (length (chess_moves R g))) (carlsenScored R g rnd)"

subsection \<open>getPositionalMove\<close>

definition positionalScore :: "'p Chess \<Rightarrow> real \<Rightarrow> Move \<Rightarrow> real" where
  "positionalScore g r move =
     (let s0 = r * 2;
          s1 = (if m_piece move = KNIGHT \<or> m_piece move = BISHOP then s0 + 2 else s0);
          s2 = (if js_includes (m_san move) ''O-O'' then s1 + 3 else s1);
          s3 = (if List.member centralSquares (m_to move) then s2 + 2 else s2);
          s4 = (if m_piece move = QUEEN \<and> length (chess_history g) < 10 then s3 - 2 else s3)
      in s4)"

definition positionalScored :: "'p Rules \<Rightarrow> 'p Chess \<Rightarrow> (nat \<Rightarrow> real) \<Rightarrow> (Move \<times> real) list" where
  "positionalScored R g rnd = scoredWith rnd (positionalScore g) (chess_moves R g)"

definition getPositionalMove ::
  "'p Rules \<Rightarrow> 'p Chess \<Rightarrow> (nat \<Rightarrow> real) \<Rightarrow> error + Move option" where
  "getPositionalMove R g rnd =
     pickFromTop 0.3 (rnd (length (chess_moves R g))) (positionalScored R g rnd)"

subsection \<open>getStyleBasedMove\<close>

datatype GamePhase = Opening | Middlegame | Endgame

definition gamePhaseOf :: "nat \<Rightarrow> GamePhase" where
  "gamePhaseOf moveCount =
     (if moveCount < 15 then Opening else if moveCount < 50 then Middlegame else Endgame)"

definition styleScore :: "'p Chess \<Rightarrow> PlayerStyle \<Rightarrow> real \<Rightarrow> Move \<Rightarrow> real" where
  "styleScore g style r move =
     (let gamePhase = gamePhaseOf (length (chess_history g));
          s0 = r * 2;
          s1 = (if m_captured move \<noteq> None then s0 + (aggressiveness style / 100) * 5 else s0);
          piece = m_piece move;
          s2 = (case piece of
                  QUEEN \<Rightarrow> s1 + queenMoves (pieceActivity style) / 200
                | ROOK \<Rightarrow> s1 + rookMoves (pieceActivity style) / 200
                | BISHOP \<Rightarrow> s1 + bishopMoves (pieceActivity style) / 200
                | KNIGHT \<Rightarrow> s1 + knightMoves (pieceActivity style) / 200
                | PAWN \<Rightarrow> s1 + pawnMoves (pieceActivity style) / 200
                | KING \<Rightarrow> s1);
          s3 = (if gamePhase = Endgame \<and> piece = KING
                then s2 + kingActivity (endgameStyle style) / 100 else s2)
      in s3)"

definition styleScored ::
  "'p Rules \<Rightarrow> 'p Chess \<Rightarrow> PlayerStyle \<Rightarrow> (nat \<Rightarrow> real) \<Rightarrow> (Move \<times> real) list" where
  "styleScored R g style rnd = scoredWith rnd (styleScore g style) (chess_moves R g)"

definition getStyleBasedMove ::
  "'p Rules \<Rightarrow> 'p Chess \<Rightarrow> PlayerStyle \<Rightarrow> (nat \<Rightarrow> real) \<Rightarrow> error + Move option" where
  "getStyleBasedMove R g style rnd =
     pickFromTop 0.3 (rnd (length (chess_moves R g))) (styleScored R g style rnd)"

subsection \<open>getAIMove\<close>

definition getAIMove ::
  "'p Rules \<Rightarrow> 'p Chess \<Rightarrow> AIConfig \<Rightarrow> (nat \<Rightarrow> real) \<Rightarrow> error + Move option" where
  "getAIMove R g config rnd =
     (if length (chess_moves R g) = 0 then Inr None
      else (case personality config of
              DefensiveTactical \<Rightarrow> getDefensiveTacticalMove R g rnd
            | Aggressive \<Rightarrow> getCarlsenStyleMove R g rnd
            | Positional \<Rightarrow> getPositionalMove R g rnd
            | StyleBased \<Rightarrow>
                (case cfg_playerStyle config of
                   Some style \<Rightarrow> getStyleBasedMove R g style rnd
                 | None \<Rightarrow> getCarlsenStyleMove R g rnd)
            | Balanced \<Rightarrow> getCarlsenStyleMove R g rnd))"

text \<open>
  The ranked list a personality works from: the scored moves after the sort, before the
  top fraction is cut off.
\<close>

definition rankedMoves ::
  "'p Rules \<Rightarrow> 'p Chess \<Rightarrow> AIConfig \<Rightarrow> (nat \<Rightarrow> real) \<Rightarrow> (Move \<times> real) list" where
  "rankedMoves R g config rnd =
     sortByScore
       (case personality config of
          DefensiveTactical \<Rightarrow> defensiveScored R g rnd
        | Aggressive \<Rightarrow> carlsenScored R g rnd
        | Positional \<Rightarrow> positionalScored R g rnd
        | StyleBased \<Rightarrow>
            (case cfg_playerStyle config of
               Some style \<Rightarrow> styleScored R g style rnd
             | None \<Rightarrow> carlsenScored R g rnd)
        | Balanced \<Rightarrow> carlsenScored R g rnd)"

subsection \<open>The computer's turn (mobile-chessboard.tsx)\<close>

text \<open>
  When it is the computer's turn the board picks the personality from the state: the
  style-based one when the difficulty is \<open>style\<close> and a profile is attached, otherwise the
  one of the fixed difficulty (the defensive one when the difficulty is \<open>style\<close> without a
  profile), and calls \<open>getAIMove\<close> on the game of the state.
\<close>

definition driverPersonality :: "'p GameState \<Rightarrow> AIPersonality" where
  "driverPersonality s =
     (if difficulty s = Style \<and> playerStyle s \<noteq> None then StyleBased
      else if difficulty s = Easy then DefensiveTactical
      else if difficulty s = Medium then Balanced
      else if difficulty s = Hard then Aggressive
      else DefensiveTactical)"

definition driverThinkingTime :: "'p GameState \<Rightarrow> real" where
  "driverThinkingTime s =
     (if difficulty s = Style \<and> playerStyle s \<noteq> None then 600
      else if difficulty s = Easy then 300
      else if difficulty s = Medium then 400
      else if difficulty s = Hard then 500
      else 500)"

definition driverConfig :: "'p GameState \<Rightarrow> AIConfig" where
  "driverConfig s =
     \<lparr>personality = driverPersonality s, thinkingTime = driverThinkingTime s,
      cfg_playerStyle = playerStyle s\<rparr>"

definition driverMove :: "'p Rules \<Rightarrow> 'p GameState \<Rightarrow> (nat \<Rightarrow> real) \<Rightarrow> error + Move option" where
  "driverMove R s rnd = getAIMove R (game s) (driverConfig s) rnd"

section \<open>PGN ingestion and style profiling (pgn-parser.ts)\<close>

text \<open>
  Texts are lists of characters with codes below 256. The regular expressions of the source
  are written with a few combinators that follow the backtracking of JavaScript: a matcher
  takes the captures made so far and the rest of the input, and answers every way it can
  match there, in the order JavaScript tries them. The first answer is the match.
\<close>

type_synonym mstate = "string list \<times> string"

type_synonym matcher = "mstate \<Rightarrow> mstate list"

definition rx_char :: "(char \<Rightarrow> bool) \<Rightarrow> matcher" where
  "rx_char P st =
     (case snd st of
        [] \<Rightarrow> []
      | c # cs \<Rightarrow> if P c then [(fst st, cs)] else [])"

definition rx_seq :: "matcher \<Rightarrow> matcher \<Rightarrow> matcher" where
  "rx_seq a b st = concat (map b (a st))"

definition rx_eps :: matcher where
  "rx_eps st = [st]"

definition rx_cat :: "matcher list \<Rightarrow> matcher" where
  "rx_cat rs = foldr rx_seq rs rx_eps"

definition rx_lit :: "string \<Rightarrow> matcher" where
  "rx_lit s = rx_cat (map (\<lambda>c. rx_char (\<lambda>d. d = c)) s)"

definition rx_alt :: "matcher \<Rightarrow> matcher \<Rightarrow> matcher" where
  "rx_alt a b st = a st @ b st"

text \<open>\<open>a?\<close>: greedy, the match of \<open>a\<close> is tried first.\<close>

definition rx_opt :: "matcher \<Rightarrow> matcher" where
  "rx_opt a = rx_alt a rx_eps"

text \<open>\<open>[class]*\<close>: greedy, the longest run first, then shorter ones down to none.\<close>

definition rx_star :: "(char \<Rightarrow> bool) \<Rightarrow> matcher" where
  "rx_star P st =
     map (\<lambda>k. (fst st, drop k (snd st))) (rev [0 ..< Suc (length (takeWhile P (snd st)))])"

definition rx_plus :: "(char \<Rightarrow> bool) \<Rightarrow> matcher" where
  "rx_plus P = rx_seq (rx_char P) (rx_star P)"

text \<open>\<open>.+?\<close> under the \<open>s\<close> flag: lazy, one character first, then more.\<close>

definition rx_lazy_any_plus :: matcher where
  "rx_lazy_any_plus st = map (\<lambda>k. (fst st, drop k (snd st))) [1 ..< Suc (length (snd st))]"

text \<open>A capturing group records the text its body consumed.\<close>

definition rx_group :: "matcher \<Rightarrow> matcher" where
  "rx_group a st =
     map (\<lambda>st'. (fst st' @ [take (length (snd st) - length (snd st')) (snd st)], snd st')) (a st)"

text \<open>\<open>$\<close> without the \<open>m\<close> flag: the end of the input.\<close>

definition rx_end :: matcher where
  "rx_end st = (if snd st = [] then [st] else [])"

definition rx_match_at :: "matcher \<Rightarrow> string \<Rightarrow> mstate option" where
  "rx_match_at r s = (case r ([], s) of [] \<Rightarrow> None | st # others \<Rightarrow> Some st)"

text \<open>The leftmost match, as \<open>String.prototype.match\<close> finds it without the \<open>g\<close> flag.\<close>

fun rx_search :: "matcher \<Rightarrow> string \<Rightarrow> mstate option" where
  "rx_search r [] = rx_match_at r []"
| "rx_search r (c # cs) =
     (case rx_match_at r (c # cs) of
        Some st \<Rightarrow> Some st
      | None \<Rightarrow> rx_search r cs)"

text \<open>
  All matches from left to right, as a loop over \<open>exec\<close> with the \<open>g\<close> flag collects them
  (for an expression that matches no empty text); \<open>skip\<close> counts the characters still
  covered by the last match.
\<close>

fun rx_find_all :: "matcher \<Rightarrow> nat \<Rightarrow> string \<Rightarrow> string list list" where
  "rx_find_all r skip [] = []"
| "rx_find_all r skip (c # cs) =
     (if skip > 0 then rx_find_all r (skip - 1) cs
      else (case rx_match_at r (c # cs) of
              None \<Rightarrow> rx_find_all r 0 cs
            | Some st \<Rightarrow> fst st # rx_find_all r (length cs - length (snd st)) cs))"

text \<open>
  \<open>s.replace(r, rep)\<close> with the \<open>g\<close> flag: each match is replaced; after an empty match
  the next character is copied and the search goes on behind it.
\<close>

fun rx_replace :: "matcher \<Rightarrow> string \<Rightarrow> nat \<Rightarrow> string \<Rightarrow> string" where
  "rx_replace r rep skip [] = (if skip = 0 \<and> rx_match_at r [] \<noteq> None then rep else [])"
| "rx_replace r rep skip (c # cs) =
     (if skip > 0 then rx_replace r rep (skip - 1) cs
      else (case rx_match_at r (c # cs) of
              None \<Rightarrow> c # rx_replace r rep 0 cs
            | Some st \<Rightarrow>
                (if length (snd st) = Suc (length cs) then rep @ c # rx_replace r rep 0 cs
                 else rep @ rx_replace r rep (length cs - length (snd st)) cs)))"

subsection \<open>Character classes and string helpers\<close>

definition isSpace :: "char \<Rightarrow> bool" where
  "isSpace c \<longleftrightarrow> c \<in> set [CHR 0x09, CHR 0x0A, CHR 0x0B, CHR 0x0C, CHR 0x0D, CHR 0x20, CHR 0xA0]"

definition isDigit :: "char \<Rightarrow> bool" where
  "isDigit c \<longleftrightarrow> c \<in> set ''0123456789''"

definition isWord :: "char \<Rightarrow> bool" where
  "isWord c \<longleftrightarrow>
     c \<in> set ''ABCDEFGHIJKLMNOPQRSTUVWXYZabcdefghijklmnopqrstuvwxyz0123456789_''"

definition js_trim :: "string \<Rightarrow> string" where
  "js_trim s = rev (dropWhile isSpace (rev (dropWhile isSpace s)))"

text \<open>\<open>s.split(" ")\<close> with a one-character separator.\<close>

fun js_split :: "char \<Rightarrow> string \<Rightarrow> string list" where
  "js_split d [] = [[]]"
| "js_split d (c # cs) =
     (case js_split d cs of
        [] \<Rightarrow> [[c]]
      | p # ps \<Rightarrow> if c = d then [] # p # ps else (c # p) # ps)"

text \<open>
  \<open>s.split(/(?=lit)/g)\<close>: the text is cut in front of every occurrence of \<open>lit\<close> except
  one at the very start.
\<close>

fun splitBefore :: "string \<Rightarrow> string \<Rightarrow> string list" where
  "splitBefore lit [] = [[]]"
| "splitBefore lit (c # cs) =
     (case splitBefore lit cs of
        [] \<Rightarrow> [[c]]
      | p # ps \<Rightarrow> if cs \<noteq> [] \<and> prefix lit cs then [c] # p # ps else (c # p) # ps)"

text \<open>
  \<open>toLowerCase\<close> on characters below 256: the letters \<open>A\<close> to \<open>Z\<close> and the upper-case
  letters of Latin-1 (codes 192 to 222 without the multiplication sign 215) move to their
  lower-case partners, 32 codes further; every other character stays.
\<close>

definition upperChars :: string where
  "upperChars =
     ''ABCDEFGHIJKLMNOPQRSTUVWXYZ'' @
       [CHR 0xC0, CHR 0xC1, CHR 0xC2, CHR 0xC3, CHR 0xC4, CHR 0xC5, CHR 0xC6, CHR 0xC7,
        CHR 0xC8, CHR 0xC9, CHR 0xCA, CHR 0xCB, CHR 0xCC, CHR 0xCD, CHR 0xCE, CHR 0xCF,
        CHR 0xD0, CHR 0xD1, CHR 0xD2, CHR 0xD3, CHR 0xD4, CHR 0xD5, CHR 0xD6, CHR 0xD8,
        CHR 0xD9, CHR 0xDA, CHR 0xDB, CHR 0xDC, CHR 0xDD, CHR 0xDE]"

definition lowerChars :: string where
  "lowerChars =
     ''abcdefghijklmnopqrstuvwxyz'' @
       [CHR 0xE0, CHR 0xE1, CHR 0xE2, CHR 0xE3, CHR 0xE4, CHR 0xE5, CHR 0xE6, CHR 0xE7,
        CHR 0xE8, CHR 0xE9, CHR 0xEA, CHR 0xEB, CHR 0xEC, CHR 0xED, CHR 0xEE, CHR 0xEF,
        CHR 0xF0, CHR 0xF1, CHR 0xF2, CHR 0xF3, CHR 0xF4, CHR 0xF5, CHR 0xF6, CHR 0xF8,
        CHR 0xF9, CHR 0xFA, CHR 0xFB, CHR 0xFC, CHR 0xFD, CHR 0xFE]"

definition toLowerChar :: "char \<Rightarrow> char" where
  "toLowerChar c = (case map_of (zip upperChars lowerChars) c of None \<Rightarrow> c | Some l \<Rightarrow> l)"

definition toLowerCase :: "string \<Rightarrow> string" where
  "toLowerCase s = map toLowerChar s"

subsection \<open>parsePGN\<close>

record ParsedGame =
  moves :: "string list"
  result :: string
  white :: string
  black :: string
  event :: "string option"
  date :: "string option"
  eco :: "string option"

text \<open>\<open>/^O-O(-O)?[+#]?$/\<close>\<close>

definition castleRegex :: matcher where
  "castleRegex =
     rx_cat [rx_lit ''O-O'', rx_opt (rx_group (rx_lit ''-O'')),
             rx_opt (rx_char (\<lambda>c. c \<in> set ''+#'')), rx_end]"

text \<open>\<open>/^[KQRBN]?[a-h]?[1-8]?x?[a-h][1-8](?:=[QRBN])?[+#]?$/\<close>\<close>

definition standardMoveRegex :: matcher where
  "standardMoveRegex =
     rx_cat [rx_opt (rx_char (\<lambda>c. c \<in> set ''KQRBN'')),
             rx_opt (rx_char (\<lambda>c. c \<in> set ''abcdefgh'')),
             rx_opt (rx_char (\<lambda>c. c \<in> set ''12345678'')),
             rx_opt (rx_char (\<lambda>c. c = CHR ''x'')),
             rx_char (\<lambda>c. c \<in> set ''abcdefgh''),
             rx_char (\<lambda>c. c \<in> set ''12345678''),
             rx_opt (rx_seq (rx_char (\<lambda>c. c = CHR ''='')) (rx_char (\<lambda>c. c \<in> set ''QRBN''))),
             rx_opt (rx_char (\<lambda>c. c \<in> set ''+#'')),
             rx_end]"

definition isValidMove :: "string \<Rightarrow> bool" where
  "isValidMove move =
     (if move = [] \<or> length move < 2 then False
      else if move = ''O-O'' \<or> move = ''O-O-O'' then True
      else if js_includes move ''O-O'' then rx_match_at castleRegex move \<noteq> None
      else rx_match_at standardMoveRegex move \<noteq> None)"

text \<open>The result markers \<open>1-0|0-1|1\/2-1\/2|\*\<close>.\<close>

definition resultRegex :: matcher where
  "resultRegex =
     rx_alt (rx_lit ''1-0'') (rx_alt (rx_lit ''0-1'') (rx_alt (rx_lit ''1/2-1/2'') (rx_lit ''*'')))"

text \<open>
  The cleaning steps of \<open>parseMoves\<close>, one for each \<open>replace\<close>. The second expression of
  the source is \<open>/$$[^)]*$$/g\<close>: it matches the empty text at the end of the input only, so
  that step appends a blank and removes no variation.
\<close>

definition removeComments :: "string \<Rightarrow> string" where
  "removeComments s =
     rx_replace (rx_cat [rx_char (\<lambda>c. c = CHR ''{''), rx_star (\<lambda>c. c \<noteq> CHR ''}''),
                         rx_char (\<lambda>c. c = CHR ''}'')]) '' '' 0 s"

definition removeVariations :: "string \<Rightarrow> string" where
  "removeVariations s =
     rx_replace (rx_cat [rx_end, rx_end, rx_star (\<lambda>c. c \<noteq> CHR '')''), rx_end, rx_end]) '' '' 0 s"

definition removeAnnotations :: "string \<Rightarrow> string" where
  "removeAnnotations s =
     rx_replace (rx_cat [rx_char (\<lambda>c. c = CHR ''$''), rx_plus isDigit]) '' '' 0 s"

definition removeQualityMarks :: "string \<Rightarrow> string" where
  "removeQualityMarks s = rx_replace (rx_plus (\<lambda>c. c \<in> set ''!?'')) [] 0 s"

definition removeMoveNumbers :: "string \<Rightarrow> string" where
  "removeMoveNumbers s =
     rx_replace (rx_cat [rx_plus isDigit, rx_char (\<lambda>c. c = CHR ''.''), rx_star isSpace]) '' '' 0 s"

definition removeResults :: "string \<Rightarrow> string" where
  "removeResults s = rx_replace resultRegex [] 0 s"

definition normalizeWhitespace :: "string \<Rightarrow> string" where
  "normalizeWhitespace s = rx_replace (rx_plus isSpace) '' '' 0 s"

definition cleanText :: "string \<Rightarrow> string" where
  "cleanText movesText =
     js_trim (normalizeWhitespace (removeResults (removeMoveNumbers (removeQualityMarks
       (removeAnnotations (removeVariations (removeComments movesText)))))))"

definition parseMoves :: "string \<Rightarrow> string list" where
  "parseMoves movesText =
     (if cleanText movesText = [] then []
      else filter isValidMove (js_split (CHR '' '') (cleanText movesText)))"

text \<open>\<open>/\[(\w+)\s+"([^"]+)"\]/g\<close>\<close>

definition headerRegex :: matcher where
  "headerRegex =
     rx_cat [rx_char (\<lambda>c. c = CHR ''[''), rx_group (rx_plus isWord), rx_plus isSpace,
             rx_char (\<lambda>c. c = CHR 0x22), rx_group (rx_plus (\<lambda>c. c \<noteq> CHR 0x22)),
             rx_char (\<lambda>c. c = CHR 0x22), rx_char (\<lambda>c. c = CHR '']'')]"

text \<open>\<open>headers[match[1]] = match[2]\<close> for every match, a later tag replacing an earlier one.\<close>

definition parseHeaders :: "string \<Rightarrow> (string \<rightharpoonup> string)" where
  "parseHeaders block =
     foldl (\<lambda>headers caps. case caps of [k, v] \<Rightarrow> headers(k \<mapsto> v) | _ \<Rightarrow> headers)
           Map.empty (rx_find_all headerRegex 0 block)"

text \<open>\<open>/\]\s*\n\s*(.+?)(?:\s*(?:1-0|0-1|1\/2-1\/2|\*))?$/s\<close>\<close>

definition movesSectionRegex :: matcher where
  "movesSectionRegex =
     rx_cat [rx_char (\<lambda>c. c = CHR '']''), rx_star isSpace, rx_char (\<lambda>c. c = CHR 0x0A),
             rx_star isSpace, rx_group rx_lazy_any_plus,
             rx_opt (rx_seq (rx_star isSpace) resultRegex), rx_end]"

definition movesTextOf :: "string \<Rightarrow> string" where
  "movesTextOf block =
     (case rx_search movesSectionRegex block of
        None \<Rightarrow> []
      | Some st \<Rightarrow> (case fst st of [] \<Rightarrow> [] | m1 # rest \<Rightarrow> m1))"

definition movesOfBlock :: "string \<Rightarrow> string list" where
  "movesOfBlock block = parseMoves (movesTextOf block)"

text \<open>\<open>headers.Key || fallback\<close>\<close>

definition headerOr :: "string option \<Rightarrow> string \<Rightarrow> string" where
  "headerOr h fallback = (case h of None \<Rightarrow> fallback | Some v \<Rightarrow> if v = [] then fallback else v)"

definition gameOfBlock :: "string \<Rightarrow> ParsedGame" where
  "gameOfBlock block =
     (let headers = parseHeaders block
      in \<lparr>moves = movesOfBlock block,
          result = headerOr (headers ''Result'') ''*'',
          white = headerOr (headers ''White'') ''Unknown'',
          black = headerOr (headers ''Black'') ''Unknown'',
          event = headers ''Event'',
          date = headers ''Date'',
          eco = headers ''ECO''\<rparr>)"

definition parseGameBlock :: "string \<Rightarrow> ParsedGame option" where
  "parseGameBlock block =
     (if length (movesOfBlock block) = 0 then None else Some (gameOfBlock block))"

definition gameBlocks :: "string \<Rightarrow> string list" where
  "gameBlocks pgnText = filter (\<lambda>block. js_trim block \<noteq> []) (splitBefore ''[Event'' pgnText)"

text \<open>The loop of \<open>parsePGN\<close> over the blocks.\<close>

fun collectGames :: "string list \<Rightarrow> ParsedGame list" where
  "collectGames [] = []"
| "collectGames (block # blocks) =
     (case parseGameBlock block of
        None \<Rightarrow> collectGames blocks
      | Some parsed \<Rightarrow>
          if length (moves parsed) > 5 then parsed # collectGames blocks
          else collectGames blocks)"

definition parsePGN :: "string \<Rightarrow> ParsedGame list" where
  "parsePGN pgnText = collectGames (gameBlocks pgnText)"

subsection \<open>The move text of a game as the specification describes it\<close>

text \<open>
  The specification has the tag-pair header lines of a game followed by its move text, and
  has the variations stripped from the move text before it is cut into tokens. The next
  definitions follow that wording, to be compared with \<open>movesOfBlock\<close>: the move text of a
  block is made of its lines that do not begin with a tag pair, a variation is the text
  between a parenthesis and the one that closes it, and the other steps and the grammar of
  a move are those of \<open>parseMoves\<close>.
\<close>

definition spec_isHeaderLine :: "string \<Rightarrow> bool" where
  "spec_isHeaderLine line = (rx_match_at headerRegex (js_trim line) \<noteq> None)"

definition spec_moveText :: "string \<Rightarrow> string" where
  "spec_moveText block =
     concat (map (\<lambda>line. line @ '' '')
       (filter (\<lambda>line. \<not> spec_isHeaderLine line) (js_split (CHR 0x0A) block)))"

fun spec_stripVariations :: "nat \<Rightarrow> string \<Rightarrow> string" where
  "spec_stripVariations depth [] = []"
| "spec_stripVariations depth (c # cs) =
     (if c = CHR ''('' then CHR '' '' # spec_stripVariations (Suc depth) cs
      else if c = CHR '')'' \<and> depth > 0 then spec_stripVariations (depth - 1) cs
      else if depth > 0 then spec_stripVariations depth cs
      else c # spec_stripVariations depth cs)"

definition spec_moveTokens :: "string \<Rightarrow> string list" where
  "spec_moveTokens block =
     filter isValidMove (js_split (CHR '' '')
       (js_trim (normalizeWhitespace (removeResults (removeMoveNumbers (removeQualityMarks
         (removeAnnotations (spec_stripVariations 0 (removeComments (spec_moveText block))))))))))"

subsection \<open>analyzePlayerStyle\<close>

definition matchesPlayer :: "string \<Rightarrow> ParsedGame \<Rightarrow> bool" where
  "matchesPlayer playerName parsed \<longleftrightarrow>
     js_includes (toLowerCase (white parsed)) (toLowerCase playerName) \<or>
     js_includes (toLowerCase (black parsed)) (toLowerCase playerName)"

definition initialStyle :: "string \<Rightarrow> nat \<Rightarrow> PlayerStyle" where
  "initialStyle playerName n =
     \<lparr>name = playerName,
      totalGames = real n,
      averageGameLength = 0,
      openingPreferences = [],
      pieceActivity = \<lparr>queenMoves = 0, rookMoves = 0, bishopMoves = 0, knightMoves = 0,
                        pawnMoves = 0\<rparr>,
      tacticalPatterns = \<lparr>captures = 0, checks = 0, castling = 0, promotions = 0\<rparr>,
      endgameStyle = \<lparr>kingActivity = 0, pawnPushes = 0, pieceExchanges = 0\<rparr>,
      aggressiveness = 50,
      positionalVsTactical = 50\<rparr>"

text \<open>
  \<open>prefs[opening] = (prefs[opening] || 0) + 1\<close> on a table kept in insertion order (the
  keys a JavaScript object inherits, such as \<open>constructor\<close>, are left aside: no text of
  moves joined by blanks is one of them unless a game has that single word as its only
  move).
\<close>

fun bumpOpening :: "string \<Rightarrow> (string \<times> real) list \<Rightarrow> (string \<times> real) list" where
  "bumpOpening opening [] = [(opening, 1)]"
| "bumpOpening opening ((k, v) # rest) =
     (if k = opening then (k, v + 1) # rest else (k, v) # bumpOpening opening rest)"

fun js_join :: "string \<Rightarrow> string list \<Rightarrow> string" where
  "js_join sep [] = []"
| "js_join sep [x] = x"
| "js_join sep (x # y # ys) = x @ sep @ js_join sep (y # ys)"

text \<open>\<open>Math.round\<close>: the nearest integer, a half rounded up.\<close>

definition js_round :: "real \<Rightarrow> real" where
  "js_round x = of_int \<lfloor>x + 1 / 2\<rfloor>"

record Analysis =
  an_style :: PlayerStyle
  an_totalMoves :: nat
  an_playerMoveCount :: nat

definition mapPieceActivity :: "(PieceActivity \<Rightarrow> PieceActivity) \<Rightarrow> PlayerStyle \<Rightarrow> PlayerStyle" where
  "mapPieceActivity f style = style\<lparr>pieceActivity := f (pieceActivity style)\<rparr>"

definition mapTactical :: "(TacticalPatterns \<Rightarrow> TacticalPatterns) \<Rightarrow> PlayerStyle \<Rightarrow> PlayerStyle" where
  "mapTactical f style = style\<lparr>tacticalPatterns := f (tacticalPatterns style)\<rparr>"

definition mapEndgame :: "(EndgameStyle \<Rightarrow> EndgameStyle) \<Rightarrow> PlayerStyle \<Rightarrow> PlayerStyle" where
  "mapEndgame f style = style\<lparr>endgameStyle := f (endgameStyle style)\<rparr>"

text \<open>
  The piece of a move is read off its first character (\<open>undefined\<close> for an empty text,
  which falls to the last branch like every character that is not a piece letter).
\<close>

definition countPiece :: "string \<Rightarrow> bool \<Rightarrow> PlayerStyle \<Rightarrow> PlayerStyle" where
  "countPiece move inLastTwenty style =
     (let firstChar = (case move of [] \<Rightarrow> None | c # cs \<Rightarrow> Some c)
      in if firstChar = Some (CHR ''Q'')
           then mapPieceActivity (\<lambda>a. a\<lparr>queenMoves := queenMoves a + 1\<rparr>) style
         else if firstChar = Some (CHR ''R'')
           then mapPieceActivity (\<lambda>a. a\<lparr>rookMoves := rookMoves a + 1\<rparr>) style
         else if firstChar = Some (CHR ''B'')
           then mapPieceActivity (\<lambda>a. a\<lparr>bishopMoves := bishopMoves a + 1\<rparr>) style
         else if firstChar = Some (CHR ''N'')
           then mapPieceActivity (\<lambda>a. a\<lparr>knightMoves := knightMoves a + 1\<rparr>) style
         else if firstChar = Some (CHR ''K'')
           then (if \<not> js_includes move ''O'' \<and> inLastTwenty
                 then mapEndgame (\<lambda>e. e\<lparr>kingActivity := kingActivity e + 1\<rparr>) style
                 else style)
         else (let s1 = mapPieceActivity (\<lambda>a. a\<lparr>pawnMoves := pawnMoves a + 1\<rparr>) style
               in if inLastTwenty
                  then mapEndgame (\<lambda>e. e\<lparr>pawnPushes := pawnPushes e + 1\<rparr>) s1
                  else s1))"

definition countPatterns :: "string \<Rightarrow> bool \<Rightarrow> PlayerStyle \<Rightarrow> PlayerStyle" where
  "countPatterns move inLastTwenty style =
     (let s1 = (if js_includes move ''x''
                then (let c = mapTactical (\<lambda>t. t\<lparr>captures := captures t + 1\<rparr>) style
                      in if inLastTwenty
                         then mapEndgame (\<lambda>e. e\<lparr>pieceExchanges := pieceExchanges e + 1\<rparr>) c
                         else c)
                else style);
          s2 = (if js_includes move ''+'' \<or> js_includes move ''#''
                then mapTactical (\<lambda>t. t\<lparr>checks := checks t + 1\<rparr>) s1 else s1);
          s3 = (if js_includes move ''O-O''
                then mapTactical (\<lambda>t. t\<lparr>castling := castling t + 1\<rparr>) s2 else s2);
          s4 = (if js_includes move ''=''
                then mapTactical (\<lambda>t. t\<lparr>promotions := promotions t + 1\<rparr>) s3 else s3)
      in s4)"

text \<open>One round of the inner loop, for the ply with index \<open>i\<close> of the game.\<close>

definition analyzeMove :: "string list \<Rightarrow> bool \<Rightarrow> Analysis \<Rightarrow> nat \<Rightarrow> Analysis" where
  "analyzeMove gameMoves isWhite acc i =
     (let move = gameMoves ! i;
          isPlayerMove = (i mod 2 = 0 \<and> isWhite) \<or> (i mod 2 = 1 \<and> \<not> isWhite)
      in if \<not> isPlayerMove then acc
         else (let inLastTwenty = (int i \<ge> int (length gameMoves) - 20)
               in acc\<lparr>an_playerMoveCount := an_playerMoveCount acc + 1,
                      an_style := countPatterns move inLastTwenty
                                    (countPiece move inLastTwenty (an_style acc))\<rparr>))"

text \<open>One round of the outer loop, for one game of the player.\<close>

definition analyzeGame :: "string \<Rightarrow> Analysis \<Rightarrow> ParsedGame \<Rightarrow> Analysis" where
  "analyzeGame playerName acc parsed =
     (let gameMoves = moves parsed;
          acc1 = acc\<lparr>an_totalMoves := an_totalMoves acc + length gameMoves\<rparr>;
          isWhite = js_includes (toLowerCase (white parsed)) (toLowerCase playerName);
          opening = js_join '' '' (take 6 gameMoves);
          acc2 = (if opening \<noteq> []
                  then acc1\<lparr>an_style := (an_style acc1)
                         \<lparr>openingPreferences := bumpOpening opening
                                                   (openingPreferences (an_style acc1))\<rparr>\<rparr>
                  else acc1)
      in foldl (analyzeMove gameMoves isWhite) acc2 [0 ..< min (length gameMoves) 80])"

definition calculateMetrics :: "nat \<Rightarrow> Analysis \<Rightarrow> PlayerStyle" where
  "calculateMetrics n acc =
     (let style = an_style acc;
          s1 = style\<lparr>averageGameLength := js_round (real (an_totalMoves acc) / real n)\<rparr>;
          capturesPerGame = captures (tacticalPatterns s1) / real n;
          checksPerGame = checks (tacticalPatterns s1) / real n;
          s2 = s1\<lparr>aggressiveness :=
                    min 100 (max 0 (js_round ((capturesPerGame + checksPerGame) * 8)))\<rparr>;
          a = pieceActivity s2;
          totalPieceMoves = 0 + queenMoves a + rookMoves a + bishopMoves a + knightMoves a
                              + pawnMoves a
      in if totalPieceMoves > 0
         then s2\<lparr>positionalVsTactical :=
                   js_round (((bishopMoves a + knightMoves a) / totalPieceMoves) * 100)\<rparr>
         else s2)"

definition analyzePlayerStyle :: "ParsedGame list \<Rightarrow> string \<Rightarrow> error + PlayerStyle" where
  "analyzePlayerStyle games playerName =
     (let playerGames = filter (matchesPlayer playerName) games
      in if length playerGames = 0
         then Inl (Error (''No games found for player: '' @ playerName))
         else Inr (calculateMetrics (length playerGames)
                     (foldl (analyzeGame playerName)
                        \<lparr>an_style = initialStyle playerName (length playerGames),
                         an_totalMoves = 0, an_playerMoveCount = 0\<rparr>
                        playerGames)))"
section \<open>A worked position\<close>

text \<open>
  The examples below run on an excerpt of the rules: White (king f7, pawn g6, knight h1) to
  move against Black (king h8, pawn h7). Positions are their FEN texts. White has nine legal
  moves, listed as chess.js lists them; \<open>g7#\<close> mates, and after \<open>gxh7\<close> Black has the single
  reply \<open>Kxh7\<close>. The excerpt answers for these three positions only: any other position is
  given no moves and is never asked about below.
\<close>

definition demo_start :: string where
  "demo_start = ''7k/5K1p/6P1/8/8/8/8/7N w - - 0 1''"

definition demo_after_g7 :: string where
  "demo_after_g7 = ''7k/5KPp/8/8/8/8/8/7N b - - 0 1''"

definition demo_after_gxh7 :: string where
  "demo_after_gxh7 = ''7k/5K1P/8/8/8/8/8/7N b - - 0 1''"

definition plain_move :: "Color \<Rightarrow> PieceSymbol \<Rightarrow> Square \<Rightarrow> Square \<Rightarrow> string \<Rightarrow> Move" where
  "plain_move c p f t s =
     \<lparr>m_color = c, m_from = f, m_to = t, m_piece = p, m_captured = None,
      m_promotion = None, m_flags = ''n'', m_san = s\<rparr>"

definition capture_move ::
  "Color \<Rightarrow> PieceSymbol \<Rightarrow> Square \<Rightarrow> Square \<Rightarrow> PieceSymbol \<Rightarrow> string \<Rightarrow> Move" where
  "capture_move c p f t x s =
     \<lparr>m_color = c, m_from = f, m_to = t, m_piece = p, m_captured = Some x,
      m_promotion = None, m_flags = ''c'', m_san = s\<rparr>"

definition demo_g7 :: Move where
  "demo_g7 = plain_move WHITE PAWN (Sq Fg R6) (Sq Fg R7) ''g7#''"

definition demo_gxh7 :: Move where
  "demo_gxh7 = capture_move WHITE PAWN (Sq Fg R6) (Sq Fh R7) PAWN ''gxh7''"

definition demo_Kxh7 :: Move where
  "demo_Kxh7 = capture_move BLACK KING (Sq Fh R8) (Sq Fh R7) PAWN ''Kxh7''"

definition demo_moves :: "Move list" where
  "demo_moves =
     [plain_move WHITE KING (Sq Ff R7) (Sq Fe R8) ''Ke8'',
      plain_move WHITE KING (Sq Ff R7) (Sq Ff R8) ''Kf8'',
      plain_move WHITE KING (Sq Ff R7) (Sq Ff R6) ''Kf6'',
      plain_move WHITE KING (Sq Ff R7) (Sq Fe R6) ''Ke6'',
      plain_move WHITE KING (Sq Ff R7) (Sq Fe R7) ''Ke7'',
      demo_g7,
      demo_gxh7,
      plain_move WHITE KNIGHT (Sq Fh R1) (Sq Ff R2) ''Nf2'',
      plain_move WHITE KNIGHT (Sq Fh R1) (Sq Fg R3) ''Ng3'']"

definition demo_legal_moves :: "string \<Rightarrow> Move list" where
  "demo_legal_moves p =
     (if p = demo_start then demo_moves
      else if p = demo_after_gxh7 then [demo_Kxh7]
      else [])"

definition demo_make_move :: "string \<Rightarrow> Move \<Rightarrow> string" where
  "demo_make_move p m =
     (if p = demo_start then
        (if m_san m = ''Ke8'' then ''4K2k/7p/6P1/8/8/8/8/7N b - - 1 1''
         else if m_san m = ''Kf8'' then ''5K1k/7p/6P1/8/8/8/8/7N b - - 1 1''
         else if m_san m = ''Kf6'' then ''7k/7p/5KP1/8/8/8/8/7N b - - 1 1''
         else if m_san m = ''Ke6'' then ''7k/7p/4K1P1/8/8/8/8/7N b - - 1 1''
         else if m_san m = ''Ke7'' then ''7k/4K2p/6P1/8/8/8/8/7N b - - 1 1''
         else if m_san m = ''g7#'' then demo_after_g7
         else if m_san m = ''gxh7'' then demo_after_gxh7
         else if m_san m = ''Nf2'' then ''7k/5K1p/6P1/8/8/8/5N2/8 b - - 1 1''
         else if m_san m = ''Ng3'' then ''7k/5K1p/6P1/8/8/6N1/8/8 b - - 1 1''
         else p)
      else if p = demo_after_gxh7 \<and> m_san m = ''Kxh7'' then ''8/5K1k/8/8/8/8/8/7N w - - 0 2''
      else p)"

text \<open>The board and the side to move are read off the FEN text.\<close>

definition fen_piece :: "char \<Rightarrow> (PieceSymbol \<times> Color) option" where
  "fen_piece c =
     (if c = CHR ''P'' then Some (PAWN, WHITE) else if c = CHR ''N'' then Some (KNIGHT, WHITE)
      else if c = CHR ''B'' then Some (BISHOP, WHITE) else if c = CHR ''R'' then Some (ROOK, WHITE)
      else if c = CHR ''Q'' then Some (QUEEN, WHITE) else if c = CHR ''K'' then Some (KING, WHITE)
      else if c = CHR ''p'' then Some (PAWN, BLACK) else if c = CHR ''n'' then Some (KNIGHT, BLACK)
      else if c = CHR ''b'' then Some (BISHOP, BLACK) else if c = CHR ''r'' then Some (ROOK, BLACK)
      else if c = CHR ''q'' then Some (QUEEN, BLACK) else if c = CHR ''k'' then Some (KING, BLACK)
      else None)"

definition fen_gap :: "char \<Rightarrow> nat" where
  "fen_gap c = of_char c - 48"

fun fen_cells :: "string \<Rightarrow> (PieceSymbol \<times> Color) option list list" where
  "fen_cells [] = [[]]"
| "fen_cells (c # cs) =
     (case fen_cells cs of
        [] \<Rightarrow> []
      | row # rows \<Rightarrow>
          (if c = CHR ''/'' then [] # row # rows
           else if fen_piece c = None then (replicate (fen_gap c) None @ row) # rows
           else (fen_piece c # row) # rows))"

definition demo_board :: "string \<Rightarrow> BoardSquare option list list" where
  "demo_board p =
     map (\<lambda>(r, row).
            map (\<lambda>(f, cell).
                   (case cell of
                      None \<Rightarrow> None
                    | Some (t, c) \<Rightarrow> Some \<lparr>sq_square = Sq f r, sq_type = t, sq_color = c\<rparr>))
                (zip [Fa, Fb, Fc, Fd, Fe, Ff, Fg, Fh] row))
         (zip [R8, R7, R6, R5, R4, R3, R2, R1] (fen_cells (takeWhile (\<lambda>c. c \<noteq> CHR '' '') p)))"

definition demo_piece_at :: "string \<Rightarrow> string \<Rightarrow> Piece option" where
  "demo_piece_at p sq =
     (case find (\<lambda>cell. case cell of None \<Rightarrow> False | Some x \<Rightarrow> square_text (sq_square x) = sq)
                (concat (demo_board p)) of
        Some (Some x) \<Rightarrow> Some \<lparr>piece_type = sq_type x, piece_color = sq_color x\<rparr>
      | _ \<Rightarrow> None)"

definition demo_side_to_move :: "string \<Rightarrow> Color" where
  "demo_side_to_move p =
     (case dropWhile (\<lambda>c. c \<noteq> CHR '' '') p of
        sp # c # rest \<Rightarrow> if c = CHR ''b'' then BLACK else WHITE
      | _ \<Rightarrow> WHITE)"

definition demo_rules :: "string Rules" where
  "demo_rules =
     \<lparr>load_fen = Some,
      to_fen = (\<lambda>p. p),
      default_position = ''rnbqkbnr/pppppppp/8/8/8/8/PPPPPPPP/RNBQKBNR w KQkq - 0 1'',
      legal_moves = demo_legal_moves,
      make_move = demo_make_move,
      side_to_move = demo_side_to_move,
      piece_at = demo_piece_at,
      board_of = demo_board,
      in_check = (\<lambda>p. p = demo_after_g7),
      other_draw = (\<lambda>g. False)\<rparr>"

text \<open>A session restored at the worked position, with White the human side.\<close>

definition demo_state :: "string GameState" where
  "demo_state =
     (initialState demo_rules)
       \<lparr>game := \<lparr>position = demo_start, history_stack = []\<rparr>, fen := demo_start\<rparr>"

definition demo_style :: PlayerStyle where
  "demo_style =
     \<lparr>name = ''Morphy'', totalGames = 120, averageGameLength = 62,
      openingPreferences = [(''e4 e5 Nf3 Nc6 Bc4 Bc5'', 31), (''e4 e5 Nf3 d6 d4 Bg4'', 4)],
      pieceActivity = \<lparr>queenMoves = 410, rookMoves = 520, bishopMoves = 560,
                        knightMoves = 640, pawnMoves = 1490\<rparr>,
      tacticalPatterns = \<lparr>captures = 1100, checks = 260, castling = 112, promotions = 9\<rparr>,
      endgameStyle = \<lparr>kingActivity = 180, pawnPushes = 420, pieceExchanges = 390\<rparr>,
      aggressiveness = 91, positionalVsTactical = 33\<rparr>"

definition payload :: "string \<Rightarrow> string \<Rightarrow> MovePayload" where
  "payload f t = \<lparr>pl_from = f, pl_to = t, pl_promotion = None\<rparr>"

text \<open>The captured lists of the second state extend those of the first.\<close>

definition capturedKept :: "'p GameState \<Rightarrow> 'p GameState \<Rightarrow> bool" where
  "capturedKept s s' \<longleftrightarrow>
     prefix (capturedWhite (capturedPieces s)) (capturedWhite (capturedPieces s')) \<and>
     prefix (capturedBlack (capturedPieces s)) (capturedBlack (capturedPieces s'))"

definition demo_game :: "string Chess" where
  "demo_game = \<lparr>position = demo_start, history_stack = []\<rparr>"

definition demo_game_after_gxh7 :: "string Chess" where
  "demo_game_after_gxh7 = \<lparr>position = demo_after_gxh7, history_stack = []\<rparr>"

definition positionalConfig :: AIConfig where
  "positionalConfig = \<lparr>personality = Positional, thinkingTime = 500, cfg_playerStyle = None\<rparr>"

definition balancedConfig :: AIConfig where
  "balancedConfig = \<lparr>personality = Balanced, thinkingTime = 400, cfg_playerStyle = None\<rparr>"

text \<open>Random numbers that favour the mating move, the sixth of the list, as much as they
  can: nearly one for it and zero for every other move.\<close>

definition favourMate :: "nat \<Rightarrow> real" where
  "favourMate i = (if i = 5 then 0.99 else 0)"

definition evenDraws :: "nat \<Rightarrow> real" where
  "evenDraws i = 1 / 2"

text \<open>A text without any header tag, and one without any bracket.\<close>

definition headerless :: string where
  "headerless = '']'' @ [CHR 0x0A] @ ''e4 e5 Nf3 Nc6 Bb5 a6''"

definition bare_moves :: string where
  "bare_moves = ''1. e4 e5 2. Nf3 Nc6 3. Bb5 a6''"

text \<open>
  A game of four plies, with its four header tags and a variation of three moves at
  Black's first move.
\<close>

definition four_ply_game :: string where
  "four_ply_game =
     ''[Event '' @ [CHR 0x22] @ ''Club'' @ [CHR 0x22] @ '']'' @ [CHR 0x0A] @
     ''[White '' @ [CHR 0x22] @ ''Adams'' @ [CHR 0x22] @ '']'' @ [CHR 0x0A] @
     ''[Black '' @ [CHR 0x22] @ ''Brown'' @ [CHR 0x22] @ '']'' @ [CHR 0x0A] @
     ''[Result '' @ [CHR 0x22] @ ''1/2-1/2'' @ [CHR 0x22] @ '']'' @ [CHR 0x0A, CHR 0x0A] @
     ''1. e4 e5 (1... c5 2. Nf3 d6 3. d4) 2. Nf3 Nc6 1/2-1/2''"

text \<open>A PGN text of three games; the last one has five moves.\<close>

definition three_games :: string where
  "three_games =
     ''[Event '' @ [CHR 0x22] @ ''Paris'' @ [CHR 0x22] @ '']'' @ [CHR 0x0A] @
     ''[White '' @ [CHR 0x22] @ ''Morphy, Paul'' @ [CHR 0x22] @ '']'' @ [CHR 0x0A] @
     ''[Black '' @ [CHR 0x22] @ ''Duke Karl'' @ [CHR 0x22] @ '']'' @ [CHR 0x0A] @
     ''[Result '' @ [CHR 0x22] @ ''1-0'' @ [CHR 0x22] @ '']'' @ [CHR 0x0A, CHR 0x0A] @
     ''1. e4 e5 2. Nf3 d6 3. d4 Bg4 {pin} 4. dxe5 Bxf3 1-0'' @ [CHR 0x0A, CHR 0x0A] @
     ''[Event '' @ [CHR 0x22] @ ''London'' @ [CHR 0x22] @ '']'' @ [CHR 0x0A] @
     ''[White '' @ [CHR 0x22] @ ''Staunton'' @ [CHR 0x22] @ '']'' @ [CHR 0x0A] @
     ''[Black '' @ [CHR 0x22] @ ''Anderssen'' @ [CHR 0x22] @ '']'' @ [CHR 0x0A] @
     ''[Result '' @ [CHR 0x22] @ ''0-1'' @ [CHR 0x22] @ '']'' @ [CHR 0x0A, CHR 0x0A] @
     ''1. c4 e5 2. Nc3 Nf6 $1 3. g3 d5! 4. cxd5 Nxd5 0-1'' @ [CHR 0x0A] @
     ''[Event '' @ [CHR 0x22] @ ''Short'' @ [CHR 0x22] @ '']'' @ [CHR 0x0A, CHR 0x0A] @
     ''1. e4 e5 2. Qh5 Ke7 3. Qxe5# 1-0''"

text \<open>Three parsed games; the name \<open>morphy\<close> occurs in the headers of the first two.\<close>

definition game1 :: ParsedGame where
  "game1 =
     \<lparr>moves = [''e4'', ''e5'', ''Nf3'', ''d6'', ''d4'', ''Bg4'', ''dxe5''], result = ''1-0'',
      white = ''Morphy, Paul'', black = ''Duke Karl'', event = None, date = None, eco = None\<rparr>"

definition game2 :: ParsedGame where
  "game2 =
     \<lparr>moves = [''d4'', ''d5'', ''c4'', ''e6'', ''Nc3'', ''Nf6'', ''Bg5'', ''Be7'', ''e3'', ''O-O''],
      result = ''0-1'', white = ''Anderssen'', black = ''PAUL MORPHY'', event = None,
      date = None, eco = None\<rparr>"

definition game3 :: ParsedGame where
  "game3 =
     \<lparr>moves = [''c4'', ''e5'', ''Nc3'', ''Nf6'', ''g3'', ''d5''], result = ''*'',
      white = ''Staunton'', black = ''Anderssen'', event = None, date = None, eco = None\<rparr>"

text \<open>
  The words of the specification for the player filter: the name occurs in the white or the
  black header as a piece of text, letter case set aside; \<open>gamesOf\<close> are the games of the
  player in this sense, and \<open>meanLength\<close> is the mean number of moves of a list of games,
  rounded to the nearest integer.
\<close>

definition containsName :: "string \<Rightarrow> string \<Rightarrow> bool" where
  "containsName header playerName \<longleftrightarrow> sublist (toLowerCase playerName) (toLowerCase header)"

definition gamesOf :: "string \<Rightarrow> ParsedGame list \<Rightarrow> ParsedGame list" where
  "gamesOf playerName games =
     filter (\<lambda>parsed. containsName (white parsed) playerName
                       \<or> containsName (black parsed) playerName) games"

definition meanLength :: "ParsedGame list \<Rightarrow> int" where
  "meanLength games =
     round (real (sum_list (map (\<lambda>parsed. length (moves parsed)) games)) / real (length games))"

definition styleConfig :: AIConfig where
  "styleConfig =
     \<lparr>personality = StyleBased, thinkingTime = 600, cfg_playerStyle = Some demo_style\<rparr>"

text \<open>A mating move is known to the scorers by the mate sign in its notation.\<close>

definition isMate :: "Move \<Rightarrow> bool" where
  "isMate move \<longleftrightarrow> js_includes (m_san move) ''#''"

text \<open>In a ranked list, no move that does not mate stands in front of one that does.\<close>

definition matesFirst :: "(Move \<times> real) list \<Rightarrow> bool" where
  "matesFirst ranked \<longleftrightarrow>
     (\<forall>i j. i < j \<and> j < length ranked \<and> isMate (fst (ranked ! j)) \<longrightarrow>
            isMate (fst (ranked ! i)))"

section \<open>Properties of the game state machine\<close>

lemma new_Chess_history: "new_Chess R f = Some g \<Longrightarrow> history_stack g = []"
  by (auto simp: new_Chess_def split: option.splits)

lemma new_Chess_undo: "new_Chess R f = Some g \<Longrightarrow> chess_undo g = None"
  by (simp add: chess_undo_def new_Chess_history)

text \<open>
  C1. A move followed at once by an undo should give back the FEN and the move history of
  the state before the move. In the code the undo changes nothing: \<open>UNDO_MOVE\<close> builds a
  fresh \<open>Chess\<close> object from the FEN of the state, that object has no history, so its
  \<open>undo\<close> answers \<open>null\<close> and the reducer returns the state it was given, which is the
  state after the move.
\<close>

theorem undo_after_move_keeps_move:
  "gameReducer R (gameReducer R s (MAKE_MOVE p)) UNDO_MOVE = gameReducer R s (MAKE_MOVE p)"
  by (simp add: undoMove_def new_Chess_undo split: option.splits)

text \<open>
  C2. When the squares of the payload match no legal move of the position of the state,
  \<open>MAKE_MOVE\<close> returns the state with the selection cleared and nothing else changed; in
  particular the FEN, the move history and the captured pieces are those of the state.
\<close>

theorem makeMove_unmatched:
  assumes "\<forall>pos. load_fen R (fen s) = Some pos \<longrightarrow>
             (\<forall>m \<in> set (legal_moves R pos).
                \<not> (square_text (m_from m) = pl_from p \<and> square_text (m_to m) = pl_to p))"
  shows "gameReducer R s (MAKE_MOVE p) = s\<lparr>selectedSquare := None, possibleMoves := []\<rparr>
         \<and> fen (gameReducer R s (MAKE_MOVE p)) = fen s
         \<and> moveHistory (gameReducer R s (MAKE_MOVE p)) = moveHistory s
         \<and> capturedPieces (gameReducer R s (MAKE_MOVE p)) = capturedPieces s"
proof -
  have "makeMove R s p = clearSelection s"
  proof (cases "load_fen R (fen s)")
    case None
    then show ?thesis by (simp add: makeMove_def new_Chess_def)
  next
    case (Some pos)
    with assms have "find (\<lambda>m. square_text (m_from m) = pl_from p \<and> square_text (m_to m) = pl_to p)
                       (legal_moves R pos) = None"
      by (simp add: find_None_iff)
    with Some show ?thesis
      by (simp add: makeMove_def new_Chess_def findMoveDetails_def chess_moves_def)
  qed
  then show ?thesis by (simp add: clearSelection_def)
qed

theorem makeMove_unmatched_witness:
  "load_fen demo_rules (fen demo_state) = Some demo_start
   \<and> find (\<lambda>m. square_text (m_from m) = ''e2'' \<and> square_text (m_to m) = ''e4'')
          (legal_moves demo_rules demo_start) = None
   \<and> gameReducer demo_rules demo_state (MAKE_MOVE (payload ''e2'' ''e4''))
       = demo_state\<lparr>selectedSquare := None, possibleMoves := []\<rparr>
   \<and> fen (gameReducer demo_rules demo_state (MAKE_MOVE (payload ''e2'' ''e4''))) = demo_start"
proof -
  have l: "load_fen demo_rules (fen demo_state) = Some demo_start"
    by (simp add: demo_rules_def demo_state_def)
  have n: "find (\<lambda>m. square_text (m_from m) = ''e2'' \<and> square_text (m_to m) = ''e4'')
          (legal_moves demo_rules demo_start)
           = None"
    by (simp add: demo_rules_def demo_legal_moves_def demo_moves_def plain_move_def
        capture_move_def demo_g7_def demo_gxh7_def)
  have h: "\<forall>pos. load_fen demo_rules (fen demo_state) = Some pos \<longrightarrow>
      (\<forall>m \<in> set (legal_moves demo_rules pos).
         \<not> (square_text (m_from m) = pl_from (payload ''e2'' ''e4'')
            \<and> square_text (m_to m) = pl_to (payload ''e2'' ''e4'')))"
    using n by (simp add: l find_None_iff payload_def)
  have f: "fen demo_state = demo_start"
    by (simp add: demo_state_def)
  from makeMove_unmatched [OF h] l n f show ?thesis by simp
qed

text \<open>
  C3. With a move history that is not empty, \<open>UNDO_MOVE\<close> should take back the last move
  (and a second one, depending on the side to move). In the code \<open>UNDO_MOVE\<close> returns the
  state it was given, whatever the state: the \<open>Chess\<close> object it undoes on was just built
  from a FEN and has nothing to undo.
\<close>

theorem undo_returns_state: "gameReducer R s UNDO_MOVE = s"
  by (simp add: undoMove_def new_Chess_undo split: option.splits)


lemma demo_new_Chess:
  "new_Chess demo_rules (fen demo_state) = Some \<lparr>position = demo_start, history_stack = []\<rparr>"
  by (simp add: new_Chess_def demo_rules_def demo_state_def)

lemma demo_find_g7:
  "findMoveDetails demo_rules \<lparr>position = demo_start, history_stack = []\<rparr> (payload ''g6'' ''g7'')
     = Some demo_g7"
  by (simp add: findMoveDetails_def chess_moves_def demo_rules_def demo_legal_moves_def
      demo_moves_def plain_move_def capture_move_def demo_g7_def demo_gxh7_def payload_def)

lemma demo_piece_g6:
  "demo_piece_at demo_start ''g6'' = Some \<lparr>piece_type = PAWN, piece_color = WHITE\<rparr>"
  by code_simp

lemma demo_perform_g7:
  "performMove demo_rules \<lparr>position = demo_start, history_stack = []\<rparr> (payload ''g6'' ''g7'')
     = Some (demo_g7, \<lparr>position = demo_after_g7, history_stack = [(demo_g7, demo_start)]\<rparr>)"
  by (simp add: performMove_def chess_get_def isPromotion_def char_at_is_def chess_move_def
      chess_moves_def demo_rules_def demo_piece_g6 demo_legal_moves_def demo_moves_def
      move_matches_def plain_move_def capture_move_def demo_g7_def demo_gxh7_def payload_def
      demo_make_move_def)


text \<open>
  The two undo theorems at the worked position: White mates with the pawn, the undo that
  follows leaves the FEN after the mate and the one-move history, where the state before
  the move had the FEN of the worked position and an empty history.
\<close>

lemma demo_move_then_undo:
  "fen (gameReducer demo_rules
          (gameReducer demo_rules demo_state (MAKE_MOVE (payload ''g6'' ''g7''))) UNDO_MOVE)
     = demo_after_g7
   \<and> moveHistory (gameReducer demo_rules
          (gameReducer demo_rules demo_state (MAKE_MOVE (payload ''g6'' ''g7''))) UNDO_MOVE)
     = [''g7#'']
   \<and> fen demo_state = demo_start \<and> moveHistory demo_state = []
   \<and> demo_after_g7 \<noteq> demo_start"
proof -
  have f: "fen (makeMove demo_rules demo_state (payload ''g6'' ''g7'')) = demo_after_g7"
    by (simp add: makeMove_def demo_new_Chess demo_find_g7 demo_perform_g7 chess_fen_def)
       (simp add: demo_rules_def)
  have h: "moveHistory (makeMove demo_rules demo_state (payload ''g6'' ''g7'')) = [''g7#'']"
    by (simp add: makeMove_def demo_new_Chess demo_find_g7 demo_perform_g7 chess_history_def
        demo_g7_def plain_move_def)
  have u: "undoMove demo_rules (makeMove demo_rules demo_state (payload ''g6'' ''g7''))
           = makeMove demo_rules demo_state (payload ''g6'' ''g7'')"
    by (simp add: undoMove_def new_Chess_undo split: option.splits)
  show ?thesis
    by (simp add: u f h) (simp add: demo_state_def initialState_def demo_after_g7_def demo_start_def)
qed

text \<open>
  C7. The specification has a style profile and a fixed difficulty exclude each other in
  every state the configuration actions reach. What holds: \<open>SET_PLAYER_STYLE\<close> with a profile sets
  the difficulty to \<open>Style\<close>, and with none sets it to \<open>Medium\<close>; \<open>SET_DIFFICULTY\<close> sets the
  difficulty and leaves the profile where it is; and in every state a session of the mobile
  app reaches through its menu handlers and the board, a profile is attached exactly when
  the difficulty is \<open>Style\<close>, because the handlers dispatch the two actions together.
\<close>

theorem style_difficulty_pairing:
  "playerStyle (gameReducer R s (SET_PLAYER_STYLE (Some st))) = Some st
   \<and> difficulty (gameReducer R s (SET_PLAYER_STYLE (Some st))) = Style
   \<and> driverPersonality (gameReducer R s (SET_PLAYER_STYLE (Some st))) = StyleBased
   \<and> playerStyle (gameReducer R s (SET_PLAYER_STYLE None)) = None
   \<and> difficulty (gameReducer R s (SET_PLAYER_STYLE None)) = Medium
   \<and> playerStyle (gameReducer R s (SET_DIFFICULTY d)) = playerStyle s
   \<and> difficulty (gameReducer R s (SET_DIFFICULTY d)) = d
   \<and> (\<forall>s'. appReachable R s' \<longrightarrow> (playerStyle s' = None) = (difficulty s' \<noteq> Style))"
proof -
  have "(playerStyle s' = None) = (difficulty s' \<noteq> Style)" if "appReachable R s'" for s'
    using that
  proof (induction rule: appReachable.induct)
    case reach_init
    show ?case by (simp add: initialState_def)
  next
    case (reach_restart s)
    then show ?case by (simp add: handleRestart_def resetGame_def)
  next
    case (reach_undo s)
    then show ?case by (simp add: handleUndo_def undoMove_def Let_def split: option.splits)
  next
    case (reach_switch s)
    then show ?case by (simp add: handleSwitchColors_def resetGame_def)
  next
    case (reach_difficulty s d)
    then show ?case by (simp add: handleDifficultyChange_def)
  next
    case (reach_style s st)
    then show ?case by (simp add: handleStyleSelected_def resetGame_def)
  next
    case (reach_remove s)
    then show ?case by (simp add: handleRemoveStyle_def)
  next
    case (reach_board s a)
    then show ?case
      by (cases a) (simp_all add: makeMove_def clearSelection_def split: option.splits)
  qed
  then show ?thesis by (simp add: driverPersonality_def)
qed

theorem style_difficulty_pairing_witness:
  "appReachable demo_rules (handleStyleSelected demo_rules (initialState demo_rules) demo_style)
   \<and> playerStyle (handleStyleSelected demo_rules (initialState demo_rules) demo_style)
       = Some demo_style
   \<and> difficulty (handleStyleSelected demo_rules (initialState demo_rules) demo_style) = Style"
proof -
  have r: "appReachable demo_rules
             (handleStyleSelected demo_rules (initialState demo_rules) demo_style)"
    by (rule reach_style [OF reach_init])
  have e: "playerStyle (handleStyleSelected demo_rules (initialState demo_rules) demo_style)
             = Some demo_style"
    by (simp add: handleStyleSelected_def resetGame_def)
  from style_difficulty_pairing [of demo_rules "initialState demo_rules" demo_style Hard] r e
  show ?thesis by auto
qed

text \<open>
  On the reducer alone the exclusion fails: a profile is attached, then a fixed difficulty
  is set, and the state holds both.
\<close>

theorem style_and_fixed_difficulty_counterexample:
  "playerStyle (gameReducer demo_rules
      (gameReducer demo_rules (initialState demo_rules) (SET_PLAYER_STYLE (Some demo_style)))
      (SET_DIFFICULTY Hard)) = Some demo_style
   \<and> difficulty (gameReducer demo_rules
      (gameReducer demo_rules (initialState demo_rules) (SET_PLAYER_STYLE (Some demo_style)))
      (SET_DIFFICULTY Hard)) = Hard"
  by simp

lemma trackCaptured_prefix:
  "prefix (capturedWhite cp) (capturedWhite (trackCaptured cp m)) \<and>
   prefix (capturedBlack cp) (capturedBlack (trackCaptured cp m))"
  by (simp add: trackCaptured_def split: option.splits)

lemma makeMove_capturedKept: "capturedKept s (makeMove R s p)"
  by (auto simp: capturedKept_def makeMove_def clearSelection_def trackCaptured_prefix
      split: option.splits)

lemma undoMove_captured: "capturedPieces (undoMove R s) = capturedPieces s"
  by (simp add: undoMove_def Let_def split: option.splits)

text \<open>
  C10. \<open>UNDO_MOVE\<close> leaves the captured pieces as they were. \<open>RESET_GAME\<close> empties both
  lists; no other operation of the state machine shortens them: a move only appends, the
  setters and a restored snapshot that carries no captured pieces leave them alone.
\<close>

theorem captured_frame:
  "capturedPieces (gameReducer R s UNDO_MOVE) = capturedPieces s
   \<and> capturedPieces (gameReducer R s RESET_GAME) = \<lparr>capturedWhite = [], capturedBlack = []\<rparr>
   \<and> (\<forall>p. capturedKept s (gameReducer R s (MAKE_MOVE p)))
   \<and> (\<forall>sq. capturedPieces (gameReducer R s (SET_SELECTED_SQUARE sq)) = capturedPieces s)
   \<and> (\<forall>ms. capturedPieces (gameReducer R s (SET_POSSIBLE_MOVES ms)) = capturedPieces s)
   \<and> (\<forall>d. capturedPieces (gameReducer R s (SET_DIFFICULTY d)) = capturedPieces s)
   \<and> (\<forall>c. capturedPieces (gameReducer R s (SET_PLAYER_COLOR c)) = capturedPieces s)
   \<and> (\<forall>st. capturedPieces (gameReducer R s (SET_PLAYER_STYLE st)) = capturedPieces s)
   \<and> (\<forall>st. capturedPieces (gameReducer R s (SET_GAME_STATUS st)) = capturedPieces s)
   \<and> (\<forall>p. capturedPieces (gameReducer R s (LOAD_GAME (p\<lparr>patch_capturedPieces := None\<rparr>)))
            = capturedPieces s)"
  by (simp add: undoMove_captured resetGame_def makeMove_capturedKept loadGame_def or_else_def)


section \<open>Properties of the move selection engine\<close>

lemma scoredWith_fst: "map fst (scoredWith rnd score ms) = ms"
proof -
  have "fst \<circ> (\<lambda>(i, m). (m, score (rnd i) m)) = snd"
    by auto
  then show ?thesis by (simp add: scoredWith_def map_snd_enumerate)
qed

lemma scoredWith_set: "fst ` set (scoredWith rnd score ms) = set ms"
  using scoredWith_fst [of rnd score ms] by (metis set_map)

lemma scoredWith_Nil: "scoredWith rnd score ms = [] \<longleftrightarrow> ms = []"
  by (cases ms) (simp_all add: scoredWith_def)

lemma pickFromTop_member:
  assumes "0 \<le> r" and "r < 1" and "scored \<noteq> []"
  shows "\<exists>m. pickFromTop fraction r scored = Inr (Some m) \<and> m \<in> fst ` set scored"
proof -
  define sorted where "sorted = sortByScore scored"
  define topCount where "topCount = max 1 (nat \<lfloor>real (length sorted) * fraction\<rfloor>)"
  define topMoves where "topMoves = take topCount sorted"
  define i where "i = \<lfloor>r * real (length topMoves)\<rfloor>"
  have len: "length sorted = length scored" and st: "set sorted = set scored"
    by (simp_all add: sorted_def sortByScore_def)
  have pos: "0 < length topMoves"
    using assms(3) len by (simp add: topMoves_def topCount_def)
  have i0: "0 \<le> i"
    using assms(1) by (simp add: i_def)
  have "r * real (length topMoves) < real (length topMoves)"
    using assms(2) pos by simp
  then have "i < int (length topMoves)"
    by (simp add: i_def floor_less_iff)
  with i0 have ilt: "nat i < length topMoves" by simp
  then have "topMoves ! nat i \<in> set topMoves" by simp
  then have "topMoves ! nat i \<in> set scored"
    using st by (auto simp: topMoves_def dest: in_set_takeD)
  moreover have "pickFromTop fraction r scored =
      (if 0 \<le> i \<and> nat i < length topMoves then Inr (Some (fst (topMoves ! nat i)))
       else Inl TypeError)"
    unfolding pickFromTop_def Let_def i_def topMoves_def topCount_def sorted_def by (rule refl)
  ultimately show ?thesis using i0 ilt by auto
qed

lemma pick_scored:
  assumes "randomSource rnd" and "ms \<noteq> []"
  shows "\<exists>m. pickFromTop fraction (rnd k) (scoredWith rnd score ms) = Inr (Some m) \<and> m \<in> set ms"
proof -
  from assms(1) have "0 \<le> rnd k" "rnd k < 1" by (simp_all add: randomSource_def)
  moreover from assms(2) have "scoredWith rnd score ms \<noteq> []" by (simp add: scoredWith_Nil)
  ultimately show ?thesis
    using pickFromTop_member [of "rnd k" "scoredWith rnd score ms" fraction]
    by (simp add: scoredWith_set)
qed

lemma getAIMove_some:
  assumes "randomSource rnd" and "chess_moves R g \<noteq> []"
  shows "\<exists>m. getAIMove R g config rnd = Inr (Some m) \<and> m \<in> set (chess_moves R g)"
  using assms
  by (auto simp: getAIMove_def getDefensiveTacticalMove_def getCarlsenStyleMove_def
      getPositionalMove_def getStyleBasedMove_def defensiveScored_def carlsenScored_def
      positionalScored_def styleScored_def Let_def
      intro: pick_scored split: AIPersonality.splits option.splits)

text \<open>
  C5. Whatever the configuration and the random numbers drawn, \<open>getAIMove\<close> returns
  \<open>null\<close> exactly when the position has no legal move, a move it returns is one of the
  legal moves, the only legal move is returned when there is just one, and the call does
  not throw.
\<close>

theorem getAIMove_legal:
  assumes "randomSource rnd"
  shows "(getAIMove R g config rnd = Inr None \<longleftrightarrow> chess_moves R g = [])
       \<and> (\<forall>m. getAIMove R g config rnd = Inr (Some m) \<longrightarrow> m \<in> set (chess_moves R g))
       \<and> (\<forall>m. chess_moves R g = [m] \<longrightarrow> getAIMove R g config rnd = Inr (Some m))
       \<and> getAIMove R g config rnd \<noteq> Inl TypeError"
proof (cases "chess_moves R g = []")
  case True
  then show ?thesis by (simp add: getAIMove_def)
next
  case False
  from getAIMove_some [OF assms False, of config]
  obtain m where "getAIMove R g config rnd = Inr (Some m)" "m \<in> set (chess_moves R g)"
    by blast
  with False show ?thesis by auto
qed

theorem getAIMove_legal_witness:
  "randomSource evenDraws
   \<and> chess_moves demo_rules demo_game_after_gxh7 = [demo_Kxh7]
   \<and> getAIMove demo_rules demo_game_after_gxh7 balancedConfig evenDraws = Inr (Some demo_Kxh7)"
proof -
  have r: "randomSource evenDraws"
    by (simp add: randomSource_def evenDraws_def)
  have m: "chess_moves demo_rules demo_game_after_gxh7 = [demo_Kxh7]"
    by (simp add: chess_moves_def demo_rules_def demo_game_after_gxh7_def demo_legal_moves_def
        demo_after_gxh7_def demo_start_def)
  from getAIMove_legal [OF r, of demo_rules demo_game_after_gxh7 balancedConfig] r m
  show ?thesis by simp
qed

lemma demo_game_moves: "chess_moves demo_rules demo_game = demo_moves"
  by (simp add: chess_moves_def demo_rules_def demo_game_def demo_legal_moves_def)

lemma demo_game_history: "chess_history demo_game = []"
  by (simp add: chess_history_def demo_game_def)

lemma enumerate_nine:
  "enumerate 0 [a, b, c, d, e, f, g, h, i] =
     [(0, a), (1, b), (2, c), (3, d), (4, e), (5, f), (6, g), (7, h), (8, i)]"
  by (simp add: enumerate_eq_zip upt_rec)

lemma positional_scores_any:
  "positionalScored demo_rules demo_game rnd =
     [(plain_move WHITE KING (Sq Ff R7) (Sq Fe R8) ''Ke8'', rnd 0 * 2),
      (plain_move WHITE KING (Sq Ff R7) (Sq Ff R8) ''Kf8'', rnd 1 * 2),
      (plain_move WHITE KING (Sq Ff R7) (Sq Ff R6) ''Kf6'', rnd 2 * 2),
      (plain_move WHITE KING (Sq Ff R7) (Sq Fe R6) ''Ke6'', rnd 3 * 2),
      (plain_move WHITE KING (Sq Ff R7) (Sq Fe R7) ''Ke7'', rnd 4 * 2),
      (demo_g7, rnd 5 * 2),
      (demo_gxh7, rnd 6 * 2),
      (plain_move WHITE KNIGHT (Sq Fh R1) (Sq Ff R2) ''Nf2'', rnd 7 * 2 + 2),
      (plain_move WHITE KNIGHT (Sq Fh R1) (Sq Fg R3) ''Ng3'', rnd 8 * 2 + 2)]"
  by (simp add: positionalScored_def demo_game_moves demo_moves_def scoredWith_def
      enumerate_nine positionalScore_def plain_move_def capture_move_def
      demo_g7_def demo_gxh7_def centralSquares_def demo_game_history Let_def
      eval_nat_numeral)

lemma style_scores_any:
  "styleScored demo_rules demo_game demo_style rnd =
     [(plain_move WHITE KING (Sq Ff R7) (Sq Fe R8) ''Ke8'', rnd 0 * 2),
      (plain_move WHITE KING (Sq Ff R7) (Sq Ff R8) ''Kf8'', rnd 1 * 2),
      (plain_move WHITE KING (Sq Ff R7) (Sq Ff R6) ''Kf6'', rnd 2 * 2),
      (plain_move WHITE KING (Sq Ff R7) (Sq Fe R6) ''Ke6'', rnd 3 * 2),
      (plain_move WHITE KING (Sq Ff R7) (Sq Fe R7) ''Ke7'', rnd 4 * 2),
      (demo_g7, rnd 5 * 2 + 7.45),
      (demo_gxh7, rnd 6 * 2 + 12),
      (plain_move WHITE KNIGHT (Sq Fh R1) (Sq Ff R2) ''Nf2'', rnd 7 * 2 + 3.2),
      (plain_move WHITE KNIGHT (Sq Fh R1) (Sq Fg R3) ''Ng3'', rnd 8 * 2 + 3.2)]"
  by (simp add: styleScored_def demo_game_moves demo_moves_def scoredWith_def
      enumerate_nine styleScore_def plain_move_def capture_move_def gamePhaseOf_def
      demo_g7_def demo_gxh7_def demo_style_def demo_game_history Let_def
      eval_nat_numeral)

lemma positional_length: "length (positionalScored demo_rules demo_game rnd) = 9"
  by (simp add: positionalScored_def scoredWith_def demo_game_moves demo_moves_def)

lemma sorted_split_at:
  fixes f :: "'a \<Rightarrow> real"
  shows "sorted (map f zs) \<Longrightarrow>
         zs = filter (\<lambda>x. f x \<le> c) zs @ filter (\<lambda>x. \<not> f x \<le> c) zs"
proof (induction zs)
  case Nil
  show ?case by simp
next
  case (Cons z zs)
  then have ih: "zs = filter (\<lambda>x. f x \<le> c) zs @ filter (\<lambda>x. \<not> f x \<le> c) zs"
    and le: "\<forall>x \<in> set zs. f z \<le> f x"
    by simp_all
  show ?case
  proof (cases "f z \<le> c")
    case True
    with ih show ?thesis by simp
  next
    case False
    with le have "\<forall>x \<in> set zs. \<not> f x \<le> c" by auto
    then have "filter (\<lambda>x. f x \<le> c) zs = []" by (simp add: filter_empty_conv)
    with False ih show ?thesis by simp
  qed
qed

lemma sort_key_split_at:
  fixes f :: "'a \<Rightarrow> real"
  shows "sort_key f xs =
           sort_key f (filter (\<lambda>x. f x \<le> c) xs) @ sort_key f (filter (\<lambda>x. \<not> f x \<le> c) xs)"
  using sorted_split_at [of f "sort_key f xs" c] by (simp add: filter_sort)

lemma positional_top_two:
  assumes "randomSource rnd"
  shows "\<forall>sm \<in> set (take 2 (sortByScore (positionalScored demo_rules demo_game rnd))).
           m_piece (fst sm) = KNIGHT"
proof -
  let ?xs = "positionalScored demo_rules demo_game rnd"
  let ?f = "\<lambda>sm :: Move \<times> real. - snd sm"
  let ?K = "[(plain_move WHITE KNIGHT (Sq Fh R1) (Sq Ff R2) ''Nf2'', rnd 7 * 2 + 2),
             (plain_move WHITE KNIGHT (Sq Fh R1) (Sq Fg R3) ''Ng3'', rnd 8 * 2 + 2)]"
  from assms have r: "\<And>i. 0 \<le> rnd i" "\<And>i. rnd i < 1"
    by (simp_all add: randomSource_def)
  have nk: "\<not> (1 \<le> rnd i)" for i using r(2) [of i] by simp
  have K: "filter (\<lambda>x. ?f x \<le> - 2) ?xs = ?K"
    using r(1) [of 7] r(1) [of 8] by (simp add: positional_scores_any nk)
  have "sortByScore ?xs = sort_key ?f ?K @ sort_key ?f (filter (\<lambda>x. \<not> ?f x \<le> - 2) ?xs)"
    unfolding sortByScore_def using sort_key_split_at [of ?f ?xs "- 2"] by (simp only: K)
  moreover have "length (sort_key ?f ?K) = 2" by (simp del: sort_key_simps)
  ultimately have "take 2 (sortByScore ?xs) = sort_key ?f ?K" by simp
  moreover have "set (sort_key ?f ?K) = set ?K" by (simp only: set_sort)
  ultimately show ?thesis by (simp add: plain_move_def del: sort_key_simps)
qed

lemma style_top:
  assumes "randomSource rnd"
  shows "take 1 (sortByScore (styleScored demo_rules demo_game demo_style rnd))
           = [(demo_gxh7, rnd 6 * 2 + 12)]"
proof -
  let ?xs = "styleScored demo_rules demo_game demo_style rnd"
  let ?f = "\<lambda>sm :: Move \<times> real. - snd sm"
  let ?K = "[(demo_gxh7, rnd 6 * 2 + 12)]"
  from assms have r: "\<And>i. 0 \<le> rnd i" "\<And>i. rnd i < 1"
    by (simp_all add: randomSource_def)
  have K: "filter (\<lambda>x. ?f x \<le> - 12) ?xs = ?K"
    using r(1) [of 6] r(2) [of 0] r(2) [of 1] r(2) [of 2] r(2) [of 3] r(2) [of 4] r(2) [of 5]
      r(2) [of 7] r(2) [of 8]
    by (simp add: style_scores_any)
  have "sortByScore ?xs = sort_key ?f ?K @ sort_key ?f (filter (\<lambda>x. \<not> ?f x \<le> - 12) ?xs)"
    unfolding sortByScore_def using sort_key_split_at [of ?f ?xs "- 12"] by (simp only: K)
  then show ?thesis by simp
qed

lemma pickFromTop_in_top:
  assumes "pickFromTop fraction r scored = Inr (Some m)"
  shows "m \<in> fst ` set (take (max 1 (nat \<lfloor>real (length scored) * fraction\<rfloor>))
                             (sortByScore scored))"
proof -
  define topMoves where
    "topMoves = take (max 1 (nat \<lfloor>real (length (sortByScore scored)) * fraction\<rfloor>))
                     (sortByScore scored)"
  define i where "i = \<lfloor>r * real (length topMoves)\<rfloor>"
  have eq: "pickFromTop fraction r scored =
      (if 0 \<le> i \<and> nat i < length topMoves then Inr (Some (fst (topMoves ! nat i)))
       else Inl TypeError)"
    unfolding pickFromTop_def Let_def i_def topMoves_def by (rule refl)
  with assms have "0 \<le> i \<and> nat i < length topMoves" and "m = fst (topMoves ! nat i)"
    by (auto split: if_splits)
  then have "m \<in> fst ` set topMoves" by (metis imageI nth_mem)
  then show ?thesis by (simp add: topMoves_def sortByScore_def)
qed

text \<open>
  C6. A mating move should get a bonus that puts it on top of the ranked list for every
  personality. \<open>getDefensiveTacticalMove\<close> and \<open>getCarlsenStyleMove\<close> add 100 to a move
  whose notation carries the mate sign; \<open>getPositionalMove\<close> and \<open>getStyleBasedMove\<close> have
  no such term. At the worked position the pawn move \<open>g7#\<close> is legal and mates. Whatever
  the random numbers are, the positional ranking has the two knight moves on top and the
  move returned is a knight move, and the style-based ranking for the profile
  \<open>demo_style\<close> has the capture \<open>gxh7\<close> on top.
\<close>

theorem mate_not_on_top:
  assumes "randomSource rnd"
  shows "demo_g7 \<in> set (chess_moves demo_rules demo_game) \<and> isMate demo_g7
       \<and> (\<forall>sm \<in> set (take 2 (rankedMoves demo_rules demo_game positionalConfig rnd)).
             m_piece (fst sm) = KNIGHT)
       \<and> (\<exists>m. getAIMove demo_rules demo_game positionalConfig rnd = Inr (Some m)
               \<and> m_piece m = KNIGHT)
       \<and> fst (hd (rankedMoves demo_rules demo_game styleConfig rnd)) = demo_gxh7"
proof -
  have legal: "demo_g7 \<in> set (chess_moves demo_rules demo_game)"
    by (simp add: demo_game_moves demo_moves_def)
  have mate: "isMate demo_g7"
    by (simp add: isMate_def demo_g7_def plain_move_def)
  have top2: "\<forall>sm \<in> set (take 2 (rankedMoves demo_rules demo_game positionalConfig rnd)).
             m_piece (fst sm) = KNIGHT"
    using positional_top_two [OF assms] by (simp add: rankedMoves_def positionalConfig_def)
  have ne: "chess_moves demo_rules demo_game \<noteq> []"
    by (simp add: demo_game_moves demo_moves_def)
  from getAIMove_some [OF assms ne, of positionalConfig]
  obtain m where m: "getAIMove demo_rules demo_game positionalConfig rnd = Inr (Some m)"
    by blast
  then have "pickFromTop 0.3 (rnd (length (chess_moves demo_rules demo_game)))
               (positionalScored demo_rules demo_game rnd) = Inr (Some m)"
    using ne by (simp add: getAIMove_def positionalConfig_def getPositionalMove_def)
  from pickFromTop_in_top [OF this]
  have "m \<in> fst ` set (take (max 1 (nat \<lfloor>real (9::nat) * 0.3\<rfloor>))
                             (sortByScore (positionalScored demo_rules demo_game rnd)))"
    by (simp only: positional_length)
  moreover have "max 1 (nat \<lfloor>real (9::nat) * (0.3::real)\<rfloor>) = (2::nat)"
    by simp
  ultimately
  have "m \<in> fst ` set (take 2 (sortByScore (positionalScored demo_rules demo_game rnd)))"
    by (simp only:)
  with positional_top_two [OF assms] have "m_piece m = KNIGHT" by auto
  with m have pick: "\<exists>m. getAIMove demo_rules demo_game positionalConfig rnd = Inr (Some m)
               \<and> m_piece m = KNIGHT" by blast
  have "take 1 (rankedMoves demo_rules demo_game styleConfig rnd) = [(demo_gxh7, rnd 6 * 2 + 12)]"
    using style_top [OF assms] by (simp add: rankedMoves_def styleConfig_def)
  then have hd: "fst (hd (rankedMoves demo_rules demo_game styleConfig rnd)) = demo_gxh7"
    by (metis fst_conv hd_take list.sel(1) zero_less_one)
  from legal mate top2 pick hd show ?thesis by blast
qed

theorem mate_not_on_top_witness:
  "randomSource favourMate
   \<and> map (\<lambda>sm. (m_san (fst sm), snd sm))
          (rankedMoves demo_rules demo_game positionalConfig favourMate) =
        [(''Nf2'', 2), (''Ng3'', 2), (''g7#'', 1.98), (''Ke8'', 0), (''Kf8'', 0), (''Kf6'', 0),
         (''Ke6'', 0), (''Ke7'', 0), (''gxh7'', 0)]
   \<and> getAIMove demo_rules demo_game positionalConfig favourMate
        = Inr (Some (plain_move WHITE KNIGHT (Sq Fh R1) (Sq Ff R2) ''Nf2''))
   \<and> fst (hd (rankedMoves demo_rules demo_game styleConfig favourMate)) = demo_gxh7"
proof -
  have r: "randomSource favourMate"
    by (simp add: randomSource_def favourMate_def)
  have s: "positionalScored demo_rules demo_game favourMate =
     [(plain_move WHITE KING (Sq Ff R7) (Sq Fe R8) ''Ke8'', 0),
      (plain_move WHITE KING (Sq Ff R7) (Sq Ff R8) ''Kf8'', 0),
      (plain_move WHITE KING (Sq Ff R7) (Sq Ff R6) ''Kf6'', 0),
      (plain_move WHITE KING (Sq Ff R7) (Sq Fe R6) ''Ke6'', 0),
      (plain_move WHITE KING (Sq Ff R7) (Sq Fe R7) ''Ke7'', 0),
      (demo_g7, 1.98),
      (demo_gxh7, 0),
      (plain_move WHITE KNIGHT (Sq Fh R1) (Sq Ff R2) ''Nf2'', 2),
      (plain_move WHITE KNIGHT (Sq Fh R1) (Sq Fg R3) ''Ng3'', 2)]"
    by (simp add: positional_scores_any favourMate_def)
  have a: "map (\<lambda>sm. (m_san (fst sm), snd sm))
       (rankedMoves demo_rules demo_game positionalConfig favourMate) =
     [(''Nf2'', 2), (''Ng3'', 2), (''g7#'', 1.98), (''Ke8'', 0), (''Kf8'', 0), (''Kf6'', 0),
      (''Ke6'', 0), (''Ke7'', 0), (''gxh7'', 0)]"
    by (simp add: rankedMoves_def positionalConfig_def s sortByScore_def
        plain_move_def capture_move_def demo_g7_def demo_gxh7_def)
  have b: "getAIMove demo_rules demo_game positionalConfig favourMate
       = Inr (Some (plain_move WHITE KNIGHT (Sq Fh R1) (Sq Ff R2) ''Nf2''))"
    by (simp add: getAIMove_def positionalConfig_def getPositionalMove_def s
        pickFromTop_def sortByScore_def demo_game_moves demo_moves_def favourMate_def Let_def)
  from mate_not_on_top [OF r] r a b show ?thesis by simp
qed

text \<open>
  The two scorers that carry the bonus do rank mating moves first: a mating move scores at
  least 97 and any other move less than 37, whatever the position and the random numbers.
\<close>

lemma pieceValues_range: "0 \<le> pieceValues p \<and> pieceValues p \<le> 9"
  by (cases p) simp_all

lemma defensiveScore_bounds:
  assumes "0 \<le> r" and "r < 1"
  shows "(isMate move \<longrightarrow> 99 \<le> defensiveScore g ms r move)
       \<and> (\<not> isMate move \<longrightarrow> defensiveScore g ms r move < 33)"
proof -
  define s0 where "s0 = r * 2"
  define s1 where "s1 = (case m_captured move of
                  None \<Rightarrow> s0
                | Some c \<Rightarrow>
                    (let captureValue = pieceValues c; pieceValue = pieceValues (m_piece move)
                     in if captureValue \<ge> pieceValue then s0 + captureValue * 2
                        else s0 + captureValue * 0.5))"
  define s2 where "s2 = (if js_includes (m_san move) ''+'' then s1 + 3 else s1)"
  define s3 where "s3 = (if js_includes (m_san move) ''#'' then s2 + 100 else s2)"
  define s4 where "s4 = (if (m_piece move = KNIGHT \<or> m_piece move = BISHOP) \<and>
                   (square_rank (m_from move) = R1 \<or> square_rank (m_from move) = R8)
                then s3 + 2 else s3)"
  define s5 where "s5 = (if List.member centralSquares (m_to move) then s4 + 1.5 else s4)"
  define s6 where "s6 = (if js_includes (m_san move) ''O-O'' then s5 + 4 else s5)"
  define moveCount where "moveCount = length (chess_history g)"
  define s7 where "s7 = (if moveCount < 16 \<and>
                   list_ex (\<lambda>prevMove. m_piece prevMove = m_piece move \<and>
                                        m_from prevMove = m_from move)
                           (slice_last 4 (chess_history_verbose g))
                then s6 - 1 else s6)"
  define s8 where "s8 = (if m_piece move = KING \<and> moveCount > 20 then s7 + 1 else s7)"
  define s9 where "s9 = (if m_piece move = PAWN \<and> moveCount < 40 \<and>
                   list_ex (\<lambda>m. m_piece m = PAWN \<and>
                                  List.member (adjacentFiles (square_file (m_to move)))
                                              (fileCode (square_file (m_to m))))
                           ms
                then s8 + 0.5 else s8)"
  have score: "defensiveScore g ms r move = s9"
    unfolding defensiveScore_def Let_def s9_def s8_def s7_def moveCount_def s6_def s5_def
      s4_def s3_def s2_def s1_def s0_def by (rule refl)
  have b0: "0 \<le> s0 \<and> s0 < 2" using assms by (simp add: s0_def)
  have b1: "s0 \<le> s1 \<and> s1 \<le> s0 + 18"
    using pieceValues_range [of "the (m_captured move)"]
    by (auto simp: s1_def Let_def split: option.splits)
  have b2: "s1 \<le> s2 \<and> s2 \<le> s1 + 3" by (simp add: s2_def)
  have b3: "(isMate move \<longrightarrow> s3 = s2 + 100) \<and> (\<not> isMate move \<longrightarrow> s3 = s2)"
    by (simp add: s3_def isMate_def)
  have b4: "s3 \<le> s4 \<and> s4 \<le> s3 + 2" by (simp add: s4_def)
  have b5: "s4 \<le> s5 \<and> s5 \<le> s4 + 1.5" by (simp add: s5_def)
  have b6: "s5 \<le> s6 \<and> s6 \<le> s5 + 4" by (simp add: s6_def)
  have b7: "s6 - 1 \<le> s7 \<and> s7 \<le> s6" by (simp add: s7_def)
  have b8: "s7 \<le> s8 \<and> s8 \<le> s7 + 1" by (simp add: s8_def)
  have b9: "s8 \<le> s9 \<and> s9 \<le> s8 + 0.5" by (simp add: s9_def)
  from b0 b1 b2 b3 b4 b5 b6 b7 b8 b9 show ?thesis
    unfolding score by auto
qed

lemma pieceValuesCarlsen_range: "0 \<le> pieceValuesCarlsen p \<and> pieceValuesCarlsen p \<le> 9"
  by (cases p) simp_all

lemma fileIndex_range: "fileIndex f \<le> 7"
  by (cases f) simp_all

lemma rankNumber_range: "1 \<le> rankNumber r \<and> rankNumber r \<le> 8"
  by (cases r) simp_all

lemma carlsenScore_bounds:
  assumes "0 \<le> r" and "r < 1"
  shows "(isMate move \<longrightarrow> 97 \<le> carlsenScore R g r move)
       \<and> (\<not> isMate move \<longrightarrow> carlsenScore R g r move < 37)"
proof -
  define board where "board = chess_board R g"
  define turn where "turn = chess_turn R g"
  define endgame where "endgame = isEndgame R g"
  define piece where "piece = m_piece move"
  define to where "to = m_to move"
  define s0 where "s0 = r * 2"
  define s1 where "s1 = (case m_captured move of
                  None \<Rightarrow> s0
                | Some c \<Rightarrow> s0 + pieceValuesCarlsen c * 1.5)"
  define s2 where "s2 = (if piece = KING then
                  (if endgame then
                     (let centerDistance = \<bar>4.5 - real (fileIndex (square_file to))\<bar>
                      in s1 + 1.5 + (4 - centerDistance) * 0.5)
                   else if square_rank to = R1 \<or> square_rank to = R8 then s1 - 1
                   else s1)
                else s1)"
  define s3 where "s3 = (if piece = PAWN then
                  (let a = (if isPassed board turn (fileIndex (square_file to))
                                 (rankNumber (square_rank to))
                            then (if endgame then s2 + 3 + 2 else s2 + 3)
                            else s2)
                   in if \<not> hasPawnSupport board turn (square_file to) then a - 1.5 else a)
                else s2)"
  define s4 where "s4 = (case strongSquares piece of
                  None \<Rightarrow> s3
                | Some squares \<Rightarrow> if List.member squares to then s3 + 1.5 else s3)"
  define s5 where "s5 = (if js_includes (m_san move) ''+'' then s4 + 3 else s4)"
  define s6 where "s6 = (if js_includes (m_san move) ''#'' then s5 + 100 else s5)"
  define s7 where "s7 = (if js_includes (m_san move) ''x'' \<and> \<not> endgame then s6 + 1.5 else s6)"
  define s8 where "s8 = (if piece \<noteq> KING then
                  (case opponentKingSquare board turn of
                     None \<Rightarrow> s7
                   | Some kingSquare \<Rightarrow>
                       (let kingFile = int (fileIndex (square_file kingSquare));
                            kingRank = int (rankNumber (square_rank kingSquare));
                            toFile = int (fileIndex (square_file to));
                            toRank = int (rankNumber (square_rank to));
                            distance = max \<bar>kingFile - toFile\<bar> \<bar>kingRank - toRank\<bar>
                        in s7 + (8 - real_of_int distance) * 0.3))
                else s7)"
  define s9 where "s9 = (if endgame then
                  (let a = (if piece = KING then s8 + 1.5 else s8)
                   in if piece = ROOK \<and> isBehindPassedPawn board turn to then a + 2.5 else a)
                else s8)"
  have score: "carlsenScore R g r move = s9"
    unfolding carlsenScore_def Let_def s9_def s8_def s7_def s6_def s5_def
      s4_def s3_def s2_def s1_def s0_def to_def piece_def endgame_def turn_def board_def
    by (rule refl)
  have b0: "0 \<le> s0 \<and> s0 < 2" using assms by (simp add: s0_def)
  have b1: "s0 \<le> s1 \<and> s1 \<le> s0 + 13.5"
    using pieceValuesCarlsen_range [of "the (m_captured move)"]
    by (auto simp: s1_def split: option.splits)
  define x where "x = real (fileIndex (square_file to))"
  have "0 \<le> x \<and> x \<le> 7"
    using fileIndex_range [of "square_file to"] by (simp add: x_def)
  then have "\<bar>4.5 - x\<bar> \<le> 4.5"
    by (intro abs_leI) simp_all
  then have cd: "\<bar>4.5 - real (fileIndex (square_file to))\<bar> \<le> 4.5"
    by (simp only: x_def)
  have b2: "s1 - 1 \<le> s2 \<and> s2 \<le> s1 + 3.5"
  proof (cases "piece = KING \<and> endgame")
    case True
    define y where "y = \<bar>4.5 - real (fileIndex (square_file to))\<bar>"
    have "0 \<le> y \<and> y \<le> 4.5" using cd by (simp add: y_def)
    moreover have "s2 = s1 + 1.5 + (4 - y) * 0.5"
      using True by (simp add: s2_def Let_def y_def)
    ultimately show ?thesis by (auto simp: field_simps)
  next
    case False
    then show ?thesis by (auto simp: s2_def)
  qed
  have b3: "s2 - 1.5 \<le> s3 \<and> s3 \<le> s2 + 5" by (simp add: s3_def Let_def)
  have b4: "s3 \<le> s4 \<and> s4 \<le> s3 + 1.5" by (simp add: s4_def split: option.splits)
  have b5: "s4 \<le> s5 \<and> s5 \<le> s4 + 3" by (simp add: s5_def)
  have b6: "(isMate move \<longrightarrow> s6 = s5 + 100) \<and> (\<not> isMate move \<longrightarrow> s6 = s5)"
    by (simp add: s6_def isMate_def)
  have b7: "s6 \<le> s7 \<and> s7 \<le> s6 + 1.5" by (simp add: s7_def)
  have dist: "0 \<le> max \<bar>int (fileIndex f1) - int (fileIndex f2)\<bar>
                      \<bar>int (rankNumber r1) - int (rankNumber r2)\<bar>
            \<and> max \<bar>int (fileIndex f1) - int (fileIndex f2)\<bar>
                      \<bar>int (rankNumber r1) - int (rankNumber r2)\<bar> \<le> 7" for f1 f2 r1 r2
    using fileIndex_range [of f1] fileIndex_range [of f2] rankNumber_range [of r1]
      rankNumber_range [of r2] by (auto simp: abs_le_iff)
  have b8: "s7 \<le> s8 \<and> s8 \<le> s7 + 2.4"
  proof (cases "piece \<noteq> KING")
    case False
    then show ?thesis by (simp add: s8_def)
  next
    case True
    show ?thesis
    proof (cases "opponentKingSquare board turn")
      case None
      with True show ?thesis by (simp add: s8_def)
    next
      case (Some kingSquare)
      define d where "d = max \<bar>int (fileIndex (square_file kingSquare)) - int (fileIndex (square_file to))\<bar>
          \<bar>int (rankNumber (square_rank kingSquare)) - int (rankNumber (square_rank to))\<bar>"
      have "0 \<le> d \<and> d \<le> 7" unfolding d_def by (rule dist)
      then have "0 \<le> real_of_int d \<and> real_of_int d \<le> 7" by simp
      moreover have "s8 = s7 + (8 - real_of_int d) * 0.3"
        using True Some by (simp add: s8_def Let_def d_def)
      ultimately show ?thesis by (auto simp: field_simps)
    qed
  qed
  have b9: "s8 \<le> s9 \<and> s9 \<le> s8 + 4" by (simp add: s9_def Let_def)
  from b0 b1 b2 b3 b4 b5 b6 b7 b8 b9 show ?thesis
    unfolding score by auto
qed

lemma scoredWith_elem:
  "sm \<in> set (scoredWith rnd score ms) \<Longrightarrow> \<exists>i. snd sm = score (rnd i) (fst sm)"
  by (auto simp: scoredWith_def)

lemma sorted_mates_first:
  assumes "\<forall>sm \<in> set scored. (isMate (fst sm) \<longrightarrow> lo \<le> snd sm)
                              \<and> (\<not> isMate (fst sm) \<longrightarrow> snd sm < lo)"
  shows "matesFirst (sortByScore scored)"
  unfolding matesFirst_def
proof (intro allI impI)
  fix i j
  let ?zs = "sortByScore scored"
  assume h: "i < j \<and> j < length ?zs \<and> isMate (fst (?zs ! j))"
  have "sorted (map (\<lambda>sm. - snd sm) ?zs)"
    by (simp add: sortByScore_def)
  with h have "(map (\<lambda>sm. - snd sm) ?zs) ! i \<le> (map (\<lambda>sm. - snd sm) ?zs) ! j"
    by (intro sorted_nth_mono) simp_all
  with h have le: "snd (?zs ! j) \<le> snd (?zs ! i)" by simp
  from h have "?zs ! i \<in> set ?zs" and "?zs ! j \<in> set ?zs" by simp_all
  then have mi: "?zs ! i \<in> set scored" and mj: "?zs ! j \<in> set scored"
    by (simp_all add: sortByScore_def)
  from assms mj h have "lo \<le> snd (?zs ! j)" by blast
  with le have "lo \<le> snd (?zs ! i)" by simp
  with assms mi show "isMate (fst (?zs ! i))" by force
qed

lemma bonus_personalities_rank_mates_first:
  assumes "randomSource rnd"
      and "personality config = DefensiveTactical \<or> personality config = Aggressive
           \<or> personality config = Balanced"
  shows "matesFirst (rankedMoves R g config rnd)"
proof -
  from assms(1) have r: "\<And>i. 0 \<le> rnd i" "\<And>i. rnd i < 1"
    by (simp_all add: randomSource_def)
  have d: "matesFirst (sortByScore (defensiveScored R g rnd))"
  proof (rule sorted_mates_first [where lo = 97], intro ballI)
    fix sm assume "sm \<in> set (defensiveScored R g rnd)"
    then obtain i where "snd sm = defensiveScore g (chess_moves R g) (rnd i) (fst sm)"
      unfolding defensiveScored_def by (blast dest: scoredWith_elem)
    with defensiveScore_bounds [OF r(1) r(2), of "fst sm" g "chess_moves R g" i]
    show "(isMate (fst sm) \<longrightarrow> 97 \<le> snd sm) \<and> (\<not> isMate (fst sm) \<longrightarrow> snd sm < 97)"
      by auto
  qed
  have c: "matesFirst (sortByScore (carlsenScored R g rnd))"
  proof (rule sorted_mates_first [where lo = 97], intro ballI)
    fix sm assume "sm \<in> set (carlsenScored R g rnd)"
    then obtain i where "snd sm = carlsenScore R g (rnd i) (fst sm)"
      unfolding carlsenScored_def by (blast dest: scoredWith_elem)
    with carlsenScore_bounds [OF r(1) r(2), of "fst sm" R g i]
    show "(isMate (fst sm) \<longrightarrow> 97 \<le> snd sm) \<and> (\<not> isMate (fst sm) \<longrightarrow> snd sm < 97)"
      by auto
  qed
  from assms(2) d c show ?thesis
    by (auto simp: rankedMoves_def)
qed

section \<open>Properties of the PGN pipeline\<close>

lemma collectGames_filter:
  "collectGames blocks = map gameOfBlock (filter (\<lambda>b. 5 < length (movesOfBlock b)) blocks)"
proof (induction blocks)
  case Nil
  show ?case by simp
next
  case (Cons b blocks)
  have m: "moves (gameOfBlock b) = movesOfBlock b"
    by (simp add: gameOfBlock_def Let_def)
  show ?case
    using Cons by (auto simp: parseGameBlock_def m)
qed

lemma splitBefore_chars: "p \<in> set (splitBefore lit s) \<Longrightarrow> set p \<subseteq> set s"
proof (induction s arbitrary: p)
  case Nil
  then show ?case by simp
next
  case (Cons c cs)
  obtain q qs where sp: "splitBefore lit cs = q # qs"
    by (cases "splitBefore lit cs") (cases cs; simp split: list.splits if_splits)+
  have "\<And>x. x \<in> set (q # qs) \<Longrightarrow> set x \<subseteq> set cs"
    using Cons.IH sp by metis
  then have q: "set q \<subseteq> set cs" and qs: "\<And>x. x \<in> set qs \<Longrightarrow> set x \<subseteq> set cs"
    by auto
  from Cons.prems sp show ?case
    using q qs by (auto split: if_splits)
qed

lemma rx_cat_Cons: "rx_cat (r # rs) st = concat (map (rx_cat rs) (r st))"
  by (simp add: rx_cat_def rx_seq_def)

lemma movesSection_needs_bracket:
  "s = [] \<or> hd s \<noteq> CHR '']'' \<Longrightarrow> rx_match_at movesSectionRegex s = None"
  by (cases s) (auto simp: rx_match_at_def movesSectionRegex_def rx_cat_Cons rx_char_def)

lemma movesSection_search_None:
  "CHR '']'' \<notin> set s \<Longrightarrow> rx_search movesSectionRegex s = None"
proof (induction s)
  case Nil
  then show ?case by (simp add: movesSection_needs_bracket)
next
  case (Cons c cs)
  then have "rx_match_at movesSectionRegex (c # cs) = None"
    by (intro movesSection_needs_bracket) auto
  with Cons show ?case by simp
qed

lemma parseMoves_empty: "parseMoves [] = []"
  by code_simp

lemma movesOfBlock_no_bracket: "CHR '']'' \<notin> set b \<Longrightarrow> movesOfBlock b = []"
  by (simp add: movesOfBlock_def movesTextOf_def movesSection_search_None parseMoves_empty)

lemma parsePGN_blocks:
  "parsePGN text = map gameOfBlock (filter (\<lambda>b. 5 < length (movesOfBlock b)) (gameBlocks text))"
  by (simp add: parsePGN_def collectGames_filter)

text \<open>A text with no closing bracket gives no game.\<close>

lemma parsePGN_no_bracket:
  assumes "CHR '']'' \<notin> set text"
  shows "parsePGN text = []"
proof -
  have "movesOfBlock b = []" if "b \<in> set (gameBlocks text)" for b
  proof -
    from that have "b \<in> set (splitBefore ''[Event'' text)" by (simp add: gameBlocks_def)
    then have "set b \<subseteq> set text" by (rule splitBefore_chars)
    with assms have "CHR '']'' \<notin> set b" by auto
    then show ?thesis by (rule movesOfBlock_no_bracket)
  qed
  then have "filter (\<lambda>b. 5 < length (movesOfBlock b)) (gameBlocks text) = []"
    by (simp add: filter_empty_conv)
  then show ?thesis by (simp add: parsePGN_blocks)
qed

lemma bare_moves_parsed: "parsePGN bare_moves = []"
  by (rule parsePGN_no_bracket) (simp add: bare_moves_def)

text \<open>
  A text of three games, the third with five moves: the first two are returned, with their
  players and results.
\<close>

lemma three_games_parsed:
  "parsePGN three_games =
     [\<lparr>moves = [''e4'', ''e5'', ''Nf3'', ''d6'', ''d4'', ''Bg4'', ''dxe5'', ''Bxf3''],
       result = ''1-0'', white = ''Morphy, Paul'', black = ''Duke Karl'',
       event = Some ''Paris'', date = None, eco = None\<rparr>,
      \<lparr>moves = [''c4'', ''e5'', ''Nc3'', ''Nf6'', ''g3'', ''d5'', ''cxd5'', ''Nxd5''],
       result = ''0-1'', white = ''Staunton'', black = ''Anderssen'',
       event = Some ''London'', date = None, eco = None\<rparr>]"
  by code_simp

text \<open>
  The step of \<open>parseMoves\<close> that is to remove the variations removes nothing: its expression
  \<open>/$$[^)]*$$/g\<close> begins with the end of the input, so it matches the empty text there and
  nowhere else, and the replacement adds a blank at the end.
\<close>

lemma removeVariations_appends: "removeVariations s = s @ '' ''"
proof -
  let ?r = "rx_cat [rx_end, rx_end, rx_star (\<lambda>c. c \<noteq> CHR '')''), rx_end, rx_end]"
  have none: "rx_match_at ?r (c # cs) = None" for c cs
    by (simp add: rx_match_at_def rx_cat_def rx_seq_def rx_end_def)
  have some: "rx_match_at ?r [] \<noteq> None"
    by (simp add: rx_match_at_def rx_cat_def rx_seq_def rx_end_def rx_star_def rx_eps_def)
  have "rx_replace ?r '' '' 0 s = s @ '' ''"
    by (induction s) (simp_all add: none some)
  then show ?thesis by (simp add: removeVariations_def)
qed

text \<open>
  The game \<open>four_ply_game\<close> is one block. Its move text in the sense of the specification
  holds four moves. The text \<open>parseGameBlock\<close> takes for the moves begins behind the first
  header line, and the moves of the variation stay in it, so seven moves are found.
\<close>

lemma four_ply_game_block: "gameBlocks four_ply_game = [four_ply_game]"
  by code_simp

lemma four_ply_game_spec_tokens:
  "spec_moveTokens four_ply_game = [''e4'', ''e5'', ''Nf3'', ''Nc6'']"
  by code_simp

lemma four_ply_game_movesText:
  "movesTextOf four_ply_game =
     ''[White '' @ [CHR 0x22] @ ''Adams'' @ [CHR 0x22] @ '']'' @ [CHR 0x0A] @
     ''[Black '' @ [CHR 0x22] @ ''Brown'' @ [CHR 0x22] @ '']'' @ [CHR 0x0A] @
     ''[Result '' @ [CHR 0x22] @ ''1/2-1/2'' @ [CHR 0x22] @ '']'' @ [CHR 0x0A, CHR 0x0A] @
     ''1. e4 e5 (1... c5 2. Nf3 d6 3. d4) 2. Nf3 Nc6''"
  by code_simp

lemma four_ply_game_parsed:
  "parsePGN four_ply_game =
     [\<lparr>moves = [''e4'', ''e5'', ''c5'', ''Nf3'', ''d6'', ''Nf3'', ''Nc6''],
       result = ''1/2-1/2'', white = ''Adams'', black = ''Brown'',
       event = Some ''Club'', date = None, eco = None\<rparr>]"
  by code_simp

text \<open>
  The text \<open>headerless\<close> holds no header tag (no opening bracket at all), and \<open>parsePGN\<close>
  returns a game for it.
\<close>

lemma headerless_parsed:
  "rx_find_all headerRegex 0 headerless = []
   \<and> \<not> js_includes headerless ''[''
   \<and> parsePGN headerless =
       [\<lparr>moves = [''e4'', ''e5'', ''Nf3'', ''Nc6'', ''Bb5'', ''a6''], result = ''*'',
         white = ''Unknown'', black = ''Unknown'', event = None, date = None, eco = None\<rparr>]"
  by code_simp

text \<open>
  C8. The specification has \<open>parsePGN\<close> leave out every game with five recognized move
  tokens or fewer, and return nothing for a text with no header block. The code leaves out
  the blocks for which its own reading finds five moves or fewer, and its reading counts
  more than the moves of the game: the step commented \<open>Remove variations\<close> removes no
  variation, for any text, and the moves section begins behind the first header line. So
  the game \<open>four_ply_game\<close>, one block whose move text holds the four moves
  \<open>e4 e5 Nf3 Nc6\<close>, is returned, as a game of seven moves, three of them from the
  variation. And the text \<open>headerless\<close>, with no header tag, gives a game with both players
  \<open>Unknown\<close>.
\<close>

theorem parsePGN_keeps_four_ply_game:
  "removeVariations s = s @ '' ''
   \<and> gameBlocks four_ply_game = [four_ply_game]
   \<and> spec_moveTokens four_ply_game = [''e4'', ''e5'', ''Nf3'', ''Nc6'']
   \<and> length (spec_moveTokens four_ply_game) \<le> 5
   \<and> parsePGN four_ply_game =
       [\<lparr>moves = [''e4'', ''e5'', ''c5'', ''Nf3'', ''d6'', ''Nf3'', ''Nc6''],
         result = ''1/2-1/2'', white = ''Adams'', black = ''Brown'',
         event = Some ''Club'', date = None, eco = None\<rparr>]
   \<and> rx_find_all headerRegex 0 headerless = []
   \<and> parsePGN headerless =
       [\<lparr>moves = [''e4'', ''e5'', ''Nf3'', ''Nc6'', ''Bb5'', ''a6''], result = ''*'',
         white = ''Unknown'', black = ''Unknown'', event = None, date = None, eco = None\<rparr>]"
proof -
  have "length (spec_moveTokens four_ply_game) \<le> 5"
    by (simp add: four_ply_game_spec_tokens)
  then show ?thesis
    using removeVariations_appends [of s] four_ply_game_block four_ply_game_spec_tokens
      four_ply_game_parsed headerless_parsed
    by simp
qed

lemma js_includes_sublist: "js_includes s t \<longleftrightarrow> sublist t s"
  by (induction s) (auto simp: sublist_Cons_right)

lemma countPiece_totalGames: "totalGames (countPiece move e style) = totalGames style"
  by (simp add: countPiece_def mapPieceActivity_def mapEndgame_def Let_def)

lemma countPatterns_totalGames: "totalGames (countPatterns move e style) = totalGames style"
  by (simp add: countPatterns_def mapTactical_def mapEndgame_def Let_def)

lemma analyzeMove_keeps:
  "an_totalMoves (analyzeMove ms w acc i) = an_totalMoves acc \<and>
   totalGames (an_style (analyzeMove ms w acc i)) = totalGames (an_style acc)"
  by (simp add: analyzeMove_def Let_def countPiece_totalGames countPatterns_totalGames)

lemma foldl_analyzeMove_keeps:
  "an_totalMoves (foldl (analyzeMove ms w) acc is) = an_totalMoves acc \<and>
   totalGames (an_style (foldl (analyzeMove ms w) acc is)) = totalGames (an_style acc)"
  by (induction "is" arbitrary: acc) (simp_all add: analyzeMove_keeps)

lemma analyzeGame_effect:
  "an_totalMoves (analyzeGame playerName acc parsed) = an_totalMoves acc + length (moves parsed) \<and>
   totalGames (an_style (analyzeGame playerName acc parsed)) = totalGames (an_style acc)"
  by (simp add: analyzeGame_def Let_def foldl_analyzeMove_keeps)

lemma foldl_analyzeGame_effect:
  "an_totalMoves (foldl (analyzeGame playerName) acc gs)
     = an_totalMoves acc + sum_list (map (\<lambda>parsed. length (moves parsed)) gs) \<and>
   totalGames (an_style (foldl (analyzeGame playerName) acc gs)) = totalGames (an_style acc)"
  by (induction gs arbitrary: acc) (simp_all add: analyzeGame_effect)

lemma calculateMetrics_fields:
  "totalGames (calculateMetrics n acc) = totalGames (an_style acc) \<and>
   averageGameLength (calculateMetrics n acc) = js_round (real (an_totalMoves acc) / real n)"
  by (simp add: calculateMetrics_def Let_def)

text \<open>
  C9. \<open>analyzePlayerStyle\<close> fails exactly when no game has the name in its white or black
  header, letter case set aside. Otherwise it returns a profile whose \<open>totalGames\<close> is the
  number of the matching games and whose \<open>averageGameLength\<close> is the mean number of moves
  of those games, rounded to the nearest integer.
\<close>

theorem analyzePlayerStyle_profile:
  "(gamesOf playerName games = [] \<longrightarrow>
      analyzePlayerStyle games playerName
        = Inl (Error (''No games found for player: '' @ playerName)))
   \<and> (gamesOf playerName games \<noteq> [] \<longrightarrow>
        (\<exists>style. analyzePlayerStyle games playerName = Inr style
           \<and> totalGames style = real (length (gamesOf playerName games))
           \<and> averageGameLength style = of_int (meanLength (gamesOf playerName games))))"
proof -
  have "(\<lambda>parsed. containsName (white parsed) playerName \<or> containsName (black parsed) playerName)
          = matchesPlayer playerName"
    by (rule ext) (simp add: matchesPlayer_def containsName_def js_includes_sublist)
  then have g: "gamesOf playerName games = filter (matchesPlayer playerName) games"
    by (simp add: gamesOf_def)
  have first: "analyzePlayerStyle games playerName
        = Inl (Error (''No games found for player: '' @ playerName))"
    if "gamesOf playerName games = []"
    using that by (simp add: analyzePlayerStyle_def Let_def g)
  have second: "\<exists>style. analyzePlayerStyle games playerName = Inr style
           \<and> totalGames style = real (length (gamesOf playerName games))
           \<and> averageGameLength style = of_int (meanLength (gamesOf playerName games))"
    if "gamesOf playerName games \<noteq> []"
  proof -
    define style where
      "style = calculateMetrics (length (gamesOf playerName games))
                 (foldl (analyzeGame playerName)
                    \<lparr>an_style = initialStyle playerName (length (gamesOf playerName games)),
                     an_totalMoves = 0, an_playerMoveCount = 0\<rparr>
                    (gamesOf playerName games))"
    have r: "analyzePlayerStyle games playerName = Inr style"
      using that by (simp add: analyzePlayerStyle_def Let_def g style_def)
    have t: "totalGames style = real (length (gamesOf playerName games))"
      by (simp add: style_def calculateMetrics_fields foldl_analyzeGame_effect initialStyle_def)
    have a: "averageGameLength style = of_int (meanLength (gamesOf playerName games))"
      by (simp add: style_def calculateMetrics_fields foldl_analyzeGame_effect js_round_def
          meanLength_def round_def)
    from r t a show ?thesis by blast
  qed
  from first second show ?thesis by blast
qed

lemma morphy_games: "gamesOf ''morphy'' [game1, game2, game3] = [game1, game2]"
  by (simp add: gamesOf_def containsName_def js_includes_sublist [symmetric] game1_def
      game2_def game3_def toLowerCase_def toLowerChar_def upperChars_def lowerChars_def)

lemma fischer_games: "gamesOf ''Fischer'' [game1, game2, game3] = []"
  by (simp add: gamesOf_def containsName_def js_includes_sublist [symmetric] game1_def
      game2_def game3_def toLowerCase_def toLowerChar_def upperChars_def lowerChars_def)

theorem analyzePlayerStyle_profile_witness:
  "gamesOf ''morphy'' [game1, game2, game3] = [game1, game2]
   \<and> (\<exists>style. analyzePlayerStyle [game1, game2, game3] ''morphy'' = Inr style
             \<and> totalGames style = 2 \<and> averageGameLength style = 9)
   \<and> gamesOf ''Fischer'' [game1, game2, game3] = []
   \<and> analyzePlayerStyle [game1, game2, game3] ''Fischer''
        = Inl (Error ''No games found for player: Fischer'')"
proof -
  have m: "meanLength [game1, game2] = 9"
    by (simp add: meanLength_def game1_def game2_def round_def)
  from analyzePlayerStyle_profile [of "''morphy''" "[game1, game2, game3]"]
  have a: "\<exists>style. analyzePlayerStyle [game1, game2, game3] ''morphy'' = Inr style
             \<and> totalGames style = 2 \<and> averageGameLength style = 9"
    unfolding morphy_games m by simp
  from analyzePlayerStyle_profile [of "''Fischer''" "[game1, game2, game3]"]
  have b: "analyzePlayerStyle [game1, game2, game3] ''Fischer''
        = Inl (Error ''No games found for player: Fischer'')"
    unfolding fischer_games by simp
  from morphy_games a fischer_games b show ?thesis by blast
qed

end
